theory Spec2Isabelle
  imports Main "HOL-Library.Word"
begin

section \<open>The model loader and renderer of model.cpp\<close>

text \<open>
  The file model.cpp has six functions: \<open>readTexture\<close>, \<open>Model::loadModel\<close>,
  \<open>Model::processNode\<close>, \<open>Model::processMesh\<close>, \<open>Model::drawMesh\<close> and \<open>Model::draw\<close>.
  They read a scene that the import library built, and they talk to four collaborators
  whose code is not part of the file: the import library, the PNG decoder, the graphics
  API and the shader program class. The embedding keeps the scene as data, takes the
  answers of the collaborators as parameters (the records \<open>Env\<close> and \<open>ShaderProgram\<close>),
  and records every call to a collaborator and every line written to the console as an
  event of a trace, in the order the source issues them.
\<close>

subsection \<open>Values\<close>

text \<open>
  \<open>GLuint\<close>, \<open>GLint\<close> and \<open>GLenum\<close> are 32-bit. A \<open>GLint\<close> is kept as its bit pattern: where
  the source passes a \<open>GLint\<close> for a \<open>GLuint\<close> parameter, or back, the conversion keeps the
  bits. The C \<open>unsigned int\<close> values that only count the entries of an array or subscript
  one (\<open>mNumMeshes\<close>, \<open>mNumFaces\<close>, \<open>mMaterialIndex\<close>, the loop counters) are natural
  numbers: the source never does arithmetic on them beyond the counter of a loop that stops
  below such a count.
\<close>

type_synonym GLuint = "32 word"
type_synonym GLint = "32 word"
type_synonym GLenum = "32 word"

text \<open>
  A pointer to a buffer of floats that the scene owns (positions, normals, texture
  coordinates), and the matrix handed to \<open>draw\<close>. The source passes both on to the graphics
  API and never looks inside.
\<close>

datatype ptr = Ptr nat
datatype mat4 = Mat4 nat

text \<open>\<open>std::to_string\<close> of an unsigned value: its decimal digits.\<close>

function to_string :: "nat \<Rightarrow> string" where
  "to_string n =
     (if n < 10 then [''0123456789'' ! n]
      else to_string (n div 10) @ [''0123456789'' ! (n mod 10)])"
  by pat_completeness auto
termination
  by (relation "measure (\<lambda>n. n)") auto

declare to_string.simps [simp del]

subsection \<open>The imported scene\<close>

text \<open>
  An \<open>aiFace\<close> is its index array (\<open>mNumIndices\<close> is the length). An \<open>aiMesh\<close> carries its
  faces, the number that \<open>GetNumUVChannels()\<close> returns for it, its material index and the
  three buffers the renderer binds. An \<open>aiMaterial\<close> is what
  \<open>GetTexture(aiTextureType_DIFFUSE, 0, &path)\<close> answers: \<open>Some path\<close> for \<open>AI_SUCCESS\<close>,
  with the path as the C string \<open>path.C_Str()\<close>. An \<open>aiNode\<close> has the indices of the meshes
  it references and its children. The scene has the flat array of mesh pointers (an entry
  may be the null pointer, which \<open>processMesh\<close> tests for), the materials and the root.
  Pointers that the source follows without a test (root, children, materials, faces) are
  modelled by what they point to.

  The scene belongs to the \<open>Assimp::Importer\<close> that read it and is freed when that
  Importer is destroyed. One pointer into the scene is stored and followed in a later
  call, \<open>Mesh::mesh\<close>: a pointer to an \<open>aiMesh\<close> therefore carries the number of the
  Importer whose scene it points into, beside the mesh it points to while that Importer
  lives.
\<close>

datatype aiFace = aiFace (mIndices: "32 word list")

record aiMesh =
  mFaces :: "aiFace list"
  GetNumUVChannels :: nat
  mMaterialIndex :: nat
  mVertices :: ptr
  mNormals :: ptr
  mTextureCoords :: "nat \<Rightarrow> ptr"

record aiMesh_ptr =
  importer :: nat
  pointee :: aiMesh

record aiMaterial =
  GetTexture_DIFFUSE_0 :: "string option"

datatype aiNode = aiNode (node_mMeshes: "nat list") (mChildren: "aiNode list")

abbreviation mNumMeshes :: "aiNode \<Rightarrow> nat" where
  "mNumMeshes node \<equiv> length (node_mMeshes node)"

record aiScene =
  mMeshes :: "aiMesh option list"
  mMaterials :: "aiMaterial list"
  mRootNode :: aiNode

subsection \<open>The shader program, the Mesh and the Model\<close>

text \<open>
  \<open>ShaderProgram::a\<close> and \<open>ShaderProgram::u\<close> look a name up and return a location.
  A \<open>Mesh\<close> is the struct that \<open>processMesh\<close> fills; its member \<open>mesh\<close> points into the
  scene and is not null when it is stored. The \<open>Model\<close> has the vector \<open>meshes\<close>, the map
  \<open>loadedTextures\<close> from path to handle, and the two pointers \<open>shaderprogram\<close> and \<open>scene\<close>,
  which are null (\<open>None\<close>) or point to a program or a scene. The member \<open>scene\<close> is
  followed only inside \<open>loadModel\<close>, right after it is set, so it is kept as the scene it
  points to.
\<close>

record ShaderProgram =
  sp_a :: "string \<Rightarrow> GLint"
  sp_u :: "string \<Rightarrow> GLint"

record Mesh =
  mesh :: aiMesh_ptr
  indices :: "32 word list"
  texCoordsAttributes :: "GLint list"
  meshTextures :: "GLuint list"

record Model =
  meshes :: "Mesh list"
  loadedTextures :: "string \<rightharpoonup> GLuint"
  shaderprogram :: "ShaderProgram option"
  scene :: "aiScene option"

subsection \<open>The collaborators and the trace\<close>

text \<open>
  What \<open>lodepng::decode\<close> returns for a file: the error code (0 for success), the pixels and
  the size.
\<close>

record decoded =
  png_error :: nat
  png_image :: "8 word list"
  png_width :: "32 word"
  png_height :: "32 word"

text \<open>
  The answers of the collaborators: the scene the importer returns for a file (\<open>None\<close> is
  the null pointer) and its error string, the result of decoding a file and the text of an
  error code, and the texture name that the k-th call of \<open>glGenTextures\<close> hands out.
\<close>

record Env =
  Importer_ReadFile :: "string \<Rightarrow> aiScene option"
  Importer_GetErrorString :: "string \<Rightarrow> string"
  lodepng_decode :: "string \<Rightarrow> decoded"
  lodepng_error_text :: "nat \<Rightarrow> string"
  glGenTextures_name :: "nat \<Rightarrow> GLuint"

datatype GLpname = GL_TEXTURE_WRAP_S | GL_TEXTURE_WRAP_T
  | GL_TEXTURE_MIN_FILTER | GL_TEXTURE_MAG_FILTER

datatype GLparam = GL_CLAMP_TO_EDGE | GL_REPEAT | GL_LINEAR

text \<open>
  One event for each call that leaves the file and for each line written to \<open>std::cerr\<close> or
  \<open>std::cout\<close> (a line ends with \<open>std::endl\<close>). The constant arguments of a call
  (\<open>GL_TEXTURE_2D\<close>, \<open>GL_FLOAT\<close>, \<open>GL_TRIANGLES\<close>, the import flags) are left out.
\<close>

datatype event =
    Cerr string
  | Cout string
  | ReadFile string
  | decode string
  | ShaderProgram_a string
  | ShaderProgram_u string
  | glActiveTexture GLenum
  | glGenTextures GLuint
  | glBindTexture GLuint
  | glTexImage2D "32 word" "32 word" "8 word list"
  | glTexParameteri GLpname GLparam
  | glUniformMatrix4fv GLint mat4
  | glUniform1i GLint GLint
  | glEnableVertexAttribArray GLuint
  | glVertexAttribPointer GLuint nat ptr
  | glDisableVertexAttribArray GLuint
  | glDrawElements "32 word" "32 word list"

definition GL_TEXTURE0 :: GLenum where
  "GL_TEXTURE0 = 0x84C0"

text \<open>
  The world outside the Model: the trace so far, how many texture names \<open>glGenTextures\<close>
  has handed out, how many Importers have been constructed, and which of them live. An
  Importer gets the next number when it is constructed and leaves the living ones when it
  is destroyed.
\<close>

record world =
  trace :: "event list"
  generated :: nat
  importers :: nat
  live :: "nat set"

definition construct_Importer :: "world \<Rightarrow> world" where
  "construct_Importer w = w\<lparr>importers := Suc (importers w), live := insert (importers w) (live w)\<rparr>"

definition destroy_Importer :: "nat \<Rightarrow> world \<Rightarrow> world" where
  "destroy_Importer k w = w\<lparr>live := live w - {k}\<rparr>"

definition emit :: "event list \<Rightarrow> world \<Rightarrow> world" where
  "emit evs w = w\<lparr>trace := trace w @ evs\<rparr>"

text \<open>
  Undefined behaviour of the C++ source is a value: following a null pointer, a subscript
  outside its array, and following \<open>Mesh::mesh\<close> into a scene that has been freed.
\<close>

datatype fault = NullDereference | OutOfBounds | UseAfterFree

subsection \<open>readTexture\<close>

fun readTexture :: "Env \<Rightarrow> string \<Rightarrow> world \<Rightarrow> GLuint \<times> world" where
  "readTexture env filename w =
     (let w1 = emit [glActiveTexture GL_TEXTURE0, decode filename] w;
          d = lodepng_decode env filename
      in if png_error d \<noteq> 0 then
           (0, emit [Cerr (''Error loading texture: '' @ lodepng_error_text env (png_error d))] w1)
         else
           let w2 = emit [Cout (''Texture loaded successfully: '' @ filename @ '' (''
                            @ to_string (unat (png_width d)) @ ''x''
                            @ to_string (unat (png_height d)) @ '')'')] w1;
               tex = glGenTextures_name env (generated w2);
               w3 = emit [glGenTextures tex] (w2\<lparr>generated := Suc (generated w2)\<rparr>);
               w4 = emit [glBindTexture tex,
                          glTexImage2D (png_width d) (png_height d) (png_image d),
                          glTexParameteri GL_TEXTURE_MIN_FILTER GL_LINEAR,
                          glTexParameteri GL_TEXTURE_MAG_FILTER GL_LINEAR] w3
           in (tex, w4))"

subsection \<open>processMesh\<close>

text \<open>The inner loop over \<open>j\<close>: \<open>indices.push_back(face.mIndices[j])\<close>.\<close>

fun push_indices :: "32 word list \<Rightarrow> 32 word list \<Rightarrow> 32 word list" where
  "push_indices [] acc = acc"
| "push_indices (x # xs) acc = push_indices xs (acc @ [x])"

text \<open>The outer loop over the faces of the mesh.\<close>

fun flatten_faces :: "aiFace list \<Rightarrow> 32 word list \<Rightarrow> 32 word list" where
  "flatten_faces [] acc = acc"
| "flatten_faces (face # faces) acc = flatten_faces faces (push_indices (mIndices face) acc)"

text \<open>
  The loop over the UV channels, on the values \<open>i\<close> of the counter: each round follows
  \<open>shaderprogram\<close>, looks \<open>"texCoord" + std::to_string(i)\<close> up and pushes the answer.
\<close>

fun lookup_texCoords ::
  "ShaderProgram option \<Rightarrow> nat list \<Rightarrow> GLint list \<times> world \<Rightarrow> fault + GLint list \<times> world" where
  "lookup_texCoords sp [] (texCoordNames, w) = Inr (texCoordNames, w)"
| "lookup_texCoords sp (i # is) (texCoordNames, w) =
     (case sp of
        None \<Rightarrow> Inl NullDereference
      | Some prog \<Rightarrow>
          lookup_texCoords sp is
            (texCoordNames @ [sp_a prog (''texCoord'' @ to_string i)],
             emit [ShaderProgram_a (''texCoord'' @ to_string i)] w))"

definition push_back :: "Mesh \<Rightarrow> Model \<Rightarrow> Model" where
  "push_back meshData m = m\<lparr>meshes := meshes m @ [meshData]\<rparr>"

fun processMesh ::
  "Env \<Rightarrow> aiMesh_ptr option \<Rightarrow> aiScene \<Rightarrow> Model \<times> world \<Rightarrow> fault + Model \<times> world" where
  "processMesh env None sc (m, w) = Inr (m, emit [Cerr ''Null mesh encountered.''] w)"
| "processMesh env (Some mp) sc (m, w) =
     (case lookup_texCoords (shaderprogram m) [0 ..< GetNumUVChannels (pointee mp)] ([], w) of
        Inl f \<Rightarrow> Inl f
      | Inr (texCoordNames, w1) \<Rightarrow>
          if mMaterialIndex (pointee mp) < length (mMaterials sc) then
            (case GetTexture_DIFFUSE_0 (mMaterials sc ! mMaterialIndex (pointee mp)) of
               None \<Rightarrow>
                 Inr (push_back
                        \<lparr>mesh = mp, indices = flatten_faces (mFaces (pointee mp)) [],
                         texCoordsAttributes = texCoordNames, meshTextures = []\<rparr> m,
                      w1)
             | Some texturePath \<Rightarrow>
                 (case loadedTextures m texturePath of
                    Some h \<Rightarrow>
                      Inr (push_back
                             \<lparr>mesh = mp, indices = flatten_faces (mFaces (pointee mp)) [],
                              texCoordsAttributes = texCoordNames, meshTextures = [h]\<rparr> m,
                           w1)
                  | None \<Rightarrow>
                      (case readTexture env texturePath w1 of
                         (textureID, w2) \<Rightarrow>
                           Inr (push_back
                                  \<lparr>mesh = mp, indices = flatten_faces (mFaces (pointee mp)) [],
                                   texCoordsAttributes = texCoordNames,
                                   meshTextures = [textureID]\<rparr>
                                  (m\<lparr>loadedTextures :=
                                       (loadedTextures m)(texturePath \<mapsto> textureID)\<rparr>),
                                w2))))
          else Inl OutOfBounds)"

subsection \<open>processNode and loadModel\<close>

text \<open>
  The pointer that the mesh array of the scene of Importer \<open>k\<close> holds at an index: null,
  or a pointer into that scene.
\<close>

definition mesh_in :: "nat \<Rightarrow> aiMesh \<Rightarrow> aiMesh_ptr" where
  "mesh_in k me = \<lparr>importer = k, pointee = me\<rparr>"

definition mesh_at :: "nat \<Rightarrow> aiScene \<Rightarrow> nat \<Rightarrow> aiMesh_ptr option" where
  "mesh_at k sc i = map_option (mesh_in k) (mMeshes sc ! i)"

text \<open>
  The first loop of \<open>processNode\<close>, over the mesh indices of the node:
  \<open>processMesh(scene->mMeshes[node->mMeshes[i]], scene)\<close>. The scene is the one of
  Importer \<open>k\<close>.
\<close>

fun process_meshes ::
  "Env \<Rightarrow> nat \<Rightarrow> nat list \<Rightarrow> aiScene \<Rightarrow> Model \<times> world \<Rightarrow> fault + Model \<times> world" where
  "process_meshes env k [] sc s = Inr s"
| "process_meshes env k (i # is) sc s =
     (if i < length (mMeshes sc) then
        (case processMesh env (mesh_at k sc i) sc s of
           Inl f \<Rightarrow> Inl f
         | Inr s' \<Rightarrow> process_meshes env k is sc s')
      else Inl OutOfBounds)"

text \<open>\<open>processNode\<close>, with its second loop, over the children, as \<open>process_children\<close>.\<close>

fun processNode ::
  "Env \<Rightarrow> nat \<Rightarrow> aiNode \<Rightarrow> aiScene \<Rightarrow> Model \<times> world \<Rightarrow> fault + Model \<times> world"
and process_children ::
  "Env \<Rightarrow> nat \<Rightarrow> aiNode list \<Rightarrow> aiScene \<Rightarrow> Model \<times> world \<Rightarrow> fault + Model \<times> world" where
  "processNode env k (aiNode ms cs) sc s =
     (case process_meshes env k ms sc s of
        Inl f \<Rightarrow> Inl f
      | Inr s' \<Rightarrow> process_children env k cs sc s')"
| "process_children env k [] sc s = Inr s"
| "process_children env k (c # cs) sc s =
     (case processNode env k c sc s of
        Inl f \<Rightarrow> Inl f
      | Inr s' \<Rightarrow> process_children env k cs sc s')"

text \<open>
  \<open>loadModel\<close>. Its local \<open>Assimp::Importer importer\<close> is constructed at the start and
  destroyed wherever the function returns, and the scene with it: the pointers that
  \<open>processMesh\<close> stored in the meshes then point into freed memory.
\<close>

fun loadModel ::
  "Env \<Rightarrow> string \<Rightarrow> ShaderProgram option \<Rightarrow> Model \<times> world \<Rightarrow> fault + Model \<times> world" where
  "loadModel env pFile sp (m, w) =
     (let m1 = m\<lparr>shaderprogram := sp, scene := Importer_ReadFile env pFile\<rparr>;
          k = importers w;
          w1 = emit [ReadFile pFile] (construct_Importer w)
      in case Importer_ReadFile env pFile of
           None \<Rightarrow>
             Inr (m1, destroy_Importer k
                        (emit [Cerr (''Error loading model: ''
                                 @ Importer_GetErrorString env pFile)] w1))
         | Some sc \<Rightarrow>
             let w2 = emit [Cout (''Model loaded successfully: '' @ pFile)] w1
             in if length (mMeshes sc) = 0 then
                  Inr (m1, destroy_Importer k (emit [Cerr ''No meshes found in the model.''] w2))
                else
                  (case processNode env k (mRootNode sc) sc (m1, w2) of
                     Inl f \<Rightarrow> Inl f
                   | Inr (m2, w3) \<Rightarrow>
                       Inr (m2, destroy_Importer k
                                  (emit [Cout (''Number of meshes processed: ''
                                           @ to_string (length (meshes m2)))] w3))))"

subsection \<open>drawMesh and draw\<close>

text \<open>
  \<open>drawMesh\<close> follows \<open>mesh->mesh\<close> three times, for the buffers of positions, of UV
  channel 0 and of normals. When the Importer that owns the scene has been destroyed, the
  first of these reads is a use after free.
\<close>

text \<open>The loop over \<open>mesh->texCoordsAttributes\<close>: enable, point at UV channel 0, disable.\<close>

fun bind_texCoords :: "GLint list \<Rightarrow> ptr \<Rightarrow> world \<Rightarrow> world" where
  "bind_texCoords [] buf w = w"
| "bind_texCoords (t # ts) buf w =
     bind_texCoords ts buf
       (emit [glEnableVertexAttribArray t, glVertexAttribPointer t 2 buf,
              glDisableVertexAttribArray t] w)"

text \<open>The loop over \<open>mesh->meshTextures\<close>, with its counter \<open>i\<close>.\<close>

fun bind_textures :: "ShaderProgram \<Rightarrow> nat \<Rightarrow> GLuint list \<Rightarrow> world \<Rightarrow> world" where
  "bind_textures prog i [] w = w"
| "bind_textures prog i (h # hs) w =
     bind_textures prog (Suc i) hs
       (emit [glActiveTexture (GL_TEXTURE0 + of_nat i), glBindTexture h,
              ShaderProgram_u (''textureMap'' @ to_string i),
              glUniform1i (sp_u prog (''textureMap'' @ to_string i)) (of_nat i)] w)"

fun drawMesh :: "Mesh option \<Rightarrow> mat4 \<Rightarrow> Model \<times> world \<Rightarrow> fault + Model \<times> world" where
  "drawMesh mesh_ptr M (m, w) =
     (let w1 = emit [glTexParameteri GL_TEXTURE_WRAP_S GL_CLAMP_TO_EDGE,
                     glTexParameteri GL_TEXTURE_WRAP_T GL_CLAMP_TO_EDGE] w
      in case mesh_ptr of
           None \<Rightarrow> Inr (m, emit [Cerr ''Null mesh encountered during draw.''] w1)
         | Some me \<Rightarrow>
             let w2 = emit [glTexParameteri GL_TEXTURE_WRAP_S GL_REPEAT,
                            glTexParameteri GL_TEXTURE_WRAP_T GL_REPEAT] w1
             in (case shaderprogram m of
                  None \<Rightarrow> Inl NullDereference
                | Some prog \<Rightarrow>
                    if importer (mesh me) \<notin> live w then Inl UseAfterFree
                    else
                    let w3 = emit [ShaderProgram_u ''M'', glUniformMatrix4fv (sp_u prog ''M'') M,
                                   ShaderProgram_a ''vertex'',
                                   glEnableVertexAttribArray (sp_a prog ''vertex''),
                                   ShaderProgram_a ''vertex'',
                                   glVertexAttribPointer (sp_a prog ''vertex'') 3
                                     (mVertices (pointee (mesh me)))] w2;
                        w4 = bind_texCoords (texCoordsAttributes me)
                               (mTextureCoords (pointee (mesh me)) 0) w3;
                        w5 = bind_textures prog 0 (meshTextures me) w4;
                        w6 = emit [ShaderProgram_a ''normal'',
                                   glEnableVertexAttribArray (sp_a prog ''normal''),
                                   ShaderProgram_a ''normal'',
                                   glVertexAttribPointer (sp_a prog ''normal'') 3
                                     (mNormals (pointee (mesh me))),
                                   glDrawElements (of_nat (length (indices me))) (indices me),
                                   ShaderProgram_a ''vertex'',
                                   glDisableVertexAttribArray (sp_a prog ''vertex''),
                                   ShaderProgram_a ''normal'',
                                   glDisableVertexAttribArray (sp_a prog ''normal'')] w5
                    in Inr (m, w6)))"

text \<open>The loop of \<open>draw\<close> over the meshes of the Model, each passed by address.\<close>

fun draw_meshes :: "Mesh list \<Rightarrow> mat4 \<Rightarrow> Model \<times> world \<Rightarrow> fault + Model \<times> world" where
  "draw_meshes [] M s = Inr s"
| "draw_meshes (me # mes) M s =
     (case drawMesh (Some me) M s of
        Inl f \<Rightarrow> Inl f
      | Inr s' \<Rightarrow> draw_meshes mes M s')"

fun draw :: "mat4 \<Rightarrow> Model \<times> world \<Rightarrow> fault + Model \<times> world" where
  "draw M (m, w) = draw_meshes (meshes m) M (m, w)"


section \<open>Notions of the claims\<close>

text \<open>
  The nodes of a scene tree in pre-order: a node, then the nodes below its first child,
  then those below its second child, and so on. Every node of the tree is listed once.
\<close>

fun preorder :: "aiNode \<Rightarrow> aiNode list" where
  "preorder (aiNode ms cs) = aiNode ms cs # concat (map preorder cs)"

text \<open>The number of nodes of a scene tree.\<close>

fun count_nodes :: "aiNode \<Rightarrow> nat" where
  "count_nodes (aiNode ms cs) = Suc (sum_list (map count_nodes cs))"

text \<open>The diffuse texture path that a mesh references through its material, if any.\<close>

definition texture_path :: "aiScene \<Rightarrow> aiMesh \<Rightarrow> string option" where
  "texture_path sc me =
     (if mMaterialIndex me < length (mMaterials sc)
      then GetTexture_DIFFUSE_0 (mMaterials sc ! mMaterialIndex me) else None)"

text \<open>
  A scene as the import library builds it for a valid model file: no entry of the mesh
  array is null, every material index is inside the material array, and every mesh index
  of a node is inside the mesh array.
\<close>

definition valid_ref :: "aiScene \<Rightarrow> nat \<Rightarrow> bool" where
  "valid_ref sc i \<longleftrightarrow>
     i < length (mMeshes sc) \<and>
     (case mMeshes sc ! i of None \<Rightarrow> False
      | Some me \<Rightarrow> mMaterialIndex me < length (mMaterials sc))"

definition valid_scene :: "aiScene \<Rightarrow> bool" where
  "valid_scene sc \<longleftrightarrow>
     list_all (\<lambda>mp. case mp of None \<Rightarrow> False
                 | Some me \<Rightarrow> mMaterialIndex me < length (mMaterials sc)) (mMeshes sc) \<and>
     list_all (\<lambda>node. list_all (\<lambda>i. i < length (mMeshes sc)) (node_mMeshes node))
       (preorder (mRootNode sc))"

text \<open>The name that the loop over the UV channels builds for channel \<open>i\<close>.\<close>

definition texCoord_name :: "nat \<Rightarrow> string" where
  "texCoord_name i = ''texCoord'' @ to_string i"

text \<open>The \<open>Mesh\<close> that \<open>processMesh\<close> stores for a mesh, given the two vectors it built.\<close>

definition stored :: "aiMesh_ptr \<Rightarrow> GLint list \<Rightarrow> GLuint list \<Rightarrow> Mesh" where
  "stored mp names texs =
     \<lparr>mesh = mp, indices = flatten_faces (mFaces (pointee mp)) [],
      texCoordsAttributes = names, meshTextures = texs\<rparr>"

text \<open>
  What a run of \<open>processMesh\<close> calls does to the state, as one relation between the
  state before and the state after: the two pointers of the Model stay, the texture cache
  only gains entries, a path whose decoding fails enters the cache with handle 0, the
  meshes are appended and each new one that references a path carries the handle the
  cache holds for it, and the decoder is called once for each path that enters the cache
  and for no other.
\<close>

definition grows :: "Env \<Rightarrow> aiScene \<Rightarrow> Model \<times> world \<Rightarrow> Model \<times> world \<Rightarrow> bool" where
  "grows env sc s s' \<longleftrightarrow>
     shaderprogram (fst s') = shaderprogram (fst s) \<and>
     scene (fst s') = scene (fst s) \<and>
     loadedTextures (fst s) \<subseteq>\<^sub>m loadedTextures (fst s') \<and>
     (\<forall>p. p \<in> dom (loadedTextures (fst s')) \<longrightarrow> p \<notin> dom (loadedTextures (fst s)) \<longrightarrow>
          png_error (lodepng_decode env p) \<noteq> 0 \<longrightarrow> loadedTextures (fst s') p = Some 0) \<and>
     (\<exists>new. meshes (fst s') = meshes (fst s) @ new \<and>
        (\<forall>M \<in> set new. \<forall>p. texture_path sc (pointee (mesh M)) = Some p \<longrightarrow>
           (\<exists>h. loadedTextures (fst s') p = Some h \<and> meshTextures M = [h]))) \<and>
     (\<exists>evs. trace (snd s') = trace (snd s) @ evs \<and>
        (\<forall>p. count_list evs (decode p) =
           (if p \<in> dom (loadedTextures (fst s')) \<and> p \<notin> dom (loadedTextures (fst s))
            then 1 else 0)))"

subsection \<open>The state of the graphics API\<close>

text \<open>
  The part of the OpenGL state that the claims speak about, and what the calls of the
  trace do to it, after the OpenGL specification: \<open>glActiveTexture\<close> selects the texture
  unit, \<open>glBindTexture\<close> binds a texture to \<open>GL_TEXTURE_2D\<close> of the selected unit,
  \<open>glTexParameteri\<close> sets a parameter of the texture bound there, and
  \<open>glEnableVertexAttribArray\<close> and \<open>glDisableVertexAttribArray\<close> switch the array of an
  attribute location on and off; with a location that is not below
  \<open>GL_MAX_VERTEX_ATTRIBS\<close> (such as the -1 of a name the program does not have) they raise
  \<open>GL_INVALID_VALUE\<close> and change nothing.
\<close>

record gl_state =
  active_texture :: GLenum
  texture_binding_2d :: "GLenum \<Rightarrow> GLuint"
  tex_parameter :: "GLuint \<Rightarrow> GLpname \<Rightarrow> GLparam"
  vertex_attrib_array_enabled :: "GLuint \<Rightarrow> bool"
  max_vertex_attribs :: nat

definition bound_texture :: "gl_state \<Rightarrow> GLuint" where
  "bound_texture g = texture_binding_2d g (active_texture g)"

fun gl_step :: "event \<Rightarrow> gl_state \<Rightarrow> gl_state" where
  "gl_step (glActiveTexture unit) g = g\<lparr>active_texture := unit\<rparr>"
| "gl_step (glBindTexture tex) g =
     g\<lparr>texture_binding_2d := (texture_binding_2d g)(active_texture g := tex)\<rparr>"
| "gl_step (glTexParameteri pname param) g =
     g\<lparr>tex_parameter := (tex_parameter g)
          (bound_texture g := (tex_parameter g (bound_texture g))(pname := param))\<rparr>"
| "gl_step (glEnableVertexAttribArray i) g =
     (if unat i < max_vertex_attribs g
      then g\<lparr>vertex_attrib_array_enabled := (vertex_attrib_array_enabled g)(i := True)\<rparr>
      else g)"
| "gl_step (glDisableVertexAttribArray i) g =
     (if unat i < max_vertex_attribs g
      then g\<lparr>vertex_attrib_array_enabled := (vertex_attrib_array_enabled g)(i := False)\<rparr>
      else g)"
| "gl_step ev g = g"

definition gl_run :: "event list \<Rightarrow> gl_state \<Rightarrow> gl_state" where
  "gl_run evs g = fold gl_step evs g"

text \<open>The events of a trace that come before its first draw call.\<close>

fun is_draw :: "event \<Rightarrow> bool" where
  "is_draw (glDrawElements n idx) = True"
| "is_draw ev = False"

definition before_draw :: "event list \<Rightarrow> event list" where
  "before_draw evs = takeWhile (\<lambda>ev. \<not> is_draw ev) evs"

text \<open>
  The array of attribute location \<open>i\<close> is on: \<open>i\<close> is a location the API accepts and its
  array is enabled.
\<close>

definition attrib_array_on :: "gl_state \<Rightarrow> GLuint \<Rightarrow> bool" where
  "attrib_array_on g i \<longleftrightarrow> unat i < max_vertex_attribs g \<and> vertex_attrib_array_enabled g i"

text \<open>
  What the claim says the renderer does with the recorded texture-coordinate locations:
  for each in turn, enable it, point it at the buffer, disable it.
\<close>

definition enable_bind_disable :: "ptr \<Rightarrow> GLuint list \<Rightarrow> event list" where
  "enable_bind_disable buf ts =
     concat (map (\<lambda>t. [glEnableVertexAttribArray t, glVertexAttribPointer t 2 buf,
                        glDisableVertexAttribArray t]) ts)"

section \<open>A concrete scene\<close>

text \<open>
  A shader program with the attributes \<open>vertex\<close>, \<open>normal\<close> and \<open>texCoord0\<close> (every other
  name gets -1), two meshes that share one material with the diffuse texture
  \<open>wall.png\<close>, and a root node that references the first mesh and has one child, which
  references the second.
\<close>

definition prog0 :: ShaderProgram where
  "prog0 =
     \<lparr>sp_a = (\<lambda>name. if name = ''vertex'' then 0 else if name = ''normal'' then 1
                     else if name = ''texCoord0'' then 2 else - 1),
      sp_u = (\<lambda>name. if name = ''M'' then 0 else if name = ''textureMap0'' then 1 else - 1)\<rparr>"

definition quad :: aiMesh where
  "quad =
     \<lparr>mFaces = [aiFace [0, 1, 2], aiFace [2, 3, 0]], GetNumUVChannels = 1,
      mMaterialIndex = 0, mVertices = Ptr 1, mNormals = Ptr 2,
      mTextureCoords = (\<lambda>k. if k = 0 then Ptr 3 else Ptr 0)\<rparr>"

definition tri :: aiMesh where
  "tri =
     \<lparr>mFaces = [aiFace [0, 1, 2]], GetNumUVChannels = 2,
      mMaterialIndex = 0, mVertices = Ptr 4, mNormals = Ptr 5,
      mTextureCoords = (\<lambda>k. if k = 0 then Ptr 6 else if k = 1 then Ptr 7 else Ptr 0)\<rparr>"

definition scene0 :: aiScene where
  "scene0 =
     \<lparr>mMeshes = [Some quad, Some tri],
      mMaterials = [\<lparr>GetTexture_DIFFUSE_0 = Some ''wall.png''\<rparr>],
      mRootNode = aiNode [0] [aiNode [1] []]\<rparr>"

text \<open>The same meshes with a texture that cannot be decoded, and a scene with no mesh.\<close>

definition scene_lost :: aiScene where
  "scene_lost =
     \<lparr>mMeshes = [Some quad, Some tri],
      mMaterials = [\<lparr>GetTexture_DIFFUSE_0 = Some ''lost.png''\<rparr>],
      mRootNode = aiNode [0, 1] []\<rparr>"

definition scene_empty :: aiScene where
  "scene_empty = \<lparr>mMeshes = [], mMaterials = [], mRootNode = aiNode [] []\<rparr>"

text \<open>
  A scene whose tree branches. The root references mesh 0 and has two children: the first
  references mesh 1 and has one child, which references mesh 3; the second references
  mesh 2. The four meshes have no UV channel and no texture and differ in their buffer of
  positions.
\<close>

definition plain :: "nat \<Rightarrow> aiMesh" where
  "plain n =
     \<lparr>mFaces = [aiFace [0, 1, 2]], GetNumUVChannels = 0,
      mMaterialIndex = 0, mVertices = Ptr n, mNormals = Ptr 0,
      mTextureCoords = (\<lambda>k. Ptr 0)\<rparr>"

definition scene_tree :: aiScene where
  "scene_tree =
     \<lparr>mMeshes = [Some (plain 10), Some (plain 11), Some (plain 12), Some (plain 13)],
      mMaterials = [\<lparr>GetTexture_DIFFUSE_0 = None\<rparr>],
      mRootNode = aiNode [0] [aiNode [1] [aiNode [3] []], aiNode [2] []]\<rparr>"

text \<open>
  The collaborators: the importer knows four files and returns the null pointer for any
  other, the decoder succeeds on \<open>wall.png\<close> alone, and the k-th texture name is k + 1.
\<close>

definition env0 :: Env where
  "env0 =
     \<lparr>Importer_ReadFile = (\<lambda>file. if file = ''maze.obj'' then Some scene0
         else if file = ''lost.obj'' then Some scene_lost
         else if file = ''tree.obj'' then Some scene_tree
         else if file = ''empty.obj'' then Some scene_empty else None),
      Importer_GetErrorString = (\<lambda>file. ''Unable to open file''),
      lodepng_decode = (\<lambda>file. if file = ''wall.png''
         then \<lparr>png_error = 0, png_image = [255, 0, 0, 255], png_width = 1, png_height = 1\<rparr>
         else \<lparr>png_error = 78, png_image = [], png_width = 0, png_height = 0\<rparr>),
      lodepng_error_text = (\<lambda>code. ''failed to open file for reading''),
      glGenTextures_name = (\<lambda>k. of_nat k + 1)\<rparr>"

text \<open>
  The world before any call, and the Model as it is constructed: an empty vector, an empty
  map, and the two pointers not yet set.
\<close>

definition world0 :: world where
  "world0 = \<lparr>trace = [], generated = 0, importers = 0, live = {}\<rparr>"

definition Model0 :: Model where
  "Model0 = \<lparr>meshes = [], loadedTextures = Map.empty, shaderprogram = None, scene = None\<rparr>"

text \<open>
  The Model and the world after \<open>maze.obj\<close> has been loaded into \<open>Model0\<close>: the one
  Importer there has been is destroyed, and both meshes point into its scene.
\<close>

definition model1 :: Model where
  "model1 =
     \<lparr>meshes = [stored (mesh_in 0 quad) [2] [1], stored (mesh_in 0 tri) [2, - 1] [1]],
      loadedTextures = [''wall.png'' \<mapsto> 1],
      shaderprogram = Some prog0, scene = Some scene0\<rparr>"

definition world1 :: world where
  "world1 =
     \<lparr>trace = [ReadFile ''maze.obj'', Cout ''Model loaded successfully: maze.obj'',
               ShaderProgram_a ''texCoord0'', glActiveTexture GL_TEXTURE0,
               decode ''wall.png'',
               Cout ''Texture loaded successfully: wall.png (1x1)'', glGenTextures 1,
               glBindTexture 1, glTexImage2D 1 1 [255, 0, 0, 255],
               glTexParameteri GL_TEXTURE_MIN_FILTER GL_LINEAR,
               glTexParameteri GL_TEXTURE_MAG_FILTER GL_LINEAR,
               ShaderProgram_a ''texCoord0'', ShaderProgram_a ''texCoord1'',
               Cout ''Number of meshes processed: 2''],
      generated = 1, importers = 1, live = {}\<rparr>"

text \<open>The Model and the world after \<open>maze.obj\<close> has been loaded a second time.\<close>

definition model2 :: Model where
  "model2 =
     \<lparr>meshes = [stored (mesh_in 0 quad) [2] [1], stored (mesh_in 0 tri) [2, - 1] [1],
                stored (mesh_in 1 quad) [2] [1], stored (mesh_in 1 tri) [2, - 1] [1]],
      loadedTextures = [''wall.png'' \<mapsto> 1],
      shaderprogram = Some prog0, scene = Some scene0\<rparr>"

definition second_load_events :: "event list" where
  "second_load_events =
     [ReadFile ''maze.obj'', Cout ''Model loaded successfully: maze.obj'',
      ShaderProgram_a ''texCoord0'',
      ShaderProgram_a ''texCoord0'', ShaderProgram_a ''texCoord1'',
      Cout ''Number of meshes processed: 4'']"

definition world2 :: world where
  "world2 =
     \<lparr>trace = trace world1 @ second_load_events, generated = 1, importers = 2, live = {}\<rparr>"

text \<open>
  A state of the graphics API in which the array of location 2, the location of
  \<open>texCoord0\<close>, is enabled.
\<close>

definition gl0 :: gl_state where
  "gl0 =
     \<lparr>active_texture = GL_TEXTURE0, texture_binding_2d = (\<lambda>unit. 0),
      tex_parameter = (\<lambda>tex pname. GL_REPEAT),
      vertex_attrib_array_enabled = (\<lambda>i. i = 2), max_vertex_attribs = 16\<rparr>"

text \<open>The same state with no array enabled.\<close>

definition gl_off :: gl_state where
  "gl_off = gl0\<lparr>vertex_attrib_array_enabled := (\<lambda>i. False)\<rparr>"

text \<open>
  A world in which the Importer that read \<open>maze.obj\<close> is still alive, so that the meshes
  of \<open>model1\<close> point to scene data that can be read.
\<close>

definition world_alive :: world where
  "world_alive = \<lparr>trace = [], generated = 1, importers = 1, live = {0}\<rparr>"

text \<open>
  A shader program in which \<open>normal\<close> and \<open>texCoord0\<close> are bound to the same location, 2,
  and the Model that a load of \<open>maze.obj\<close> with this program fills.
\<close>

definition prog_shared :: ShaderProgram where
  "prog_shared =
     \<lparr>sp_a = (\<lambda>name. if name = ''vertex'' then 0 else if name = ''normal'' then 2
                     else if name = ''texCoord0'' then 2 else - 1),
      sp_u = (\<lambda>name. if name = ''M'' then 0 else if name = ''textureMap0'' then 1 else - 1)\<rparr>"

definition model_shared :: Model where
  "model_shared = model1\<lparr>shaderprogram := Some prog_shared\<rparr>"

section \<open>Lemmas\<close>

subsection \<open>The trace\<close>

lemma trace_emit [simp]: "trace (emit evs w) = trace w @ evs"
  by (simp add: emit_def)

lemma generated_emit [simp]: "generated (emit evs w) = generated w"
  by (simp add: emit_def)

lemma emit_emit: "emit ys (emit xs w) = emit (xs @ ys) w"
  by (simp add: emit_def)

lemma emit_Nil [simp]: "emit [] w = w"
  by (simp add: emit_def)

lemma live_emit [simp]: "live (emit evs w) = live w"
  by (simp add: emit_def)

lemma importers_emit [simp]: "importers (emit evs w) = importers w"
  by (simp add: emit_def)

lemma construct_Importer_sel [simp]:
  "trace (construct_Importer w) = trace w" "generated (construct_Importer w) = generated w"
  "importers (construct_Importer w) = Suc (importers w)"
  "live (construct_Importer w) = insert (importers w) (live w)"
  by (simp_all add: construct_Importer_def)

lemma destroy_Importer_sel [simp]:
  "trace (destroy_Importer k w) = trace w" "generated (destroy_Importer k w) = generated w"
  "importers (destroy_Importer k w) = importers w"
  "live (destroy_Importer k w) = live w - {k}"
  by (simp_all add: destroy_Importer_def)

subsection \<open>The loops of processMesh\<close>

lemma push_indices_append: "push_indices xs acc = acc @ xs"
  by (induction xs arbitrary: acc) simp_all

lemma flatten_faces_append: "flatten_faces faces acc = acc @ concat (map mIndices faces)"
  by (induction faces arbitrary: acc) (simp_all add: push_indices_append)

lemma length_concat_sum: "length (concat (map f xs)) = (\<Sum>x\<leftarrow>xs. length (f x))"
  by (induction xs) simp_all

lemma to_string_digit: "n < 10 \<Longrightarrow> to_string n = [''0123456789'' ! n]"
  by (simp add: to_string.simps)

lemma to_string_examples:
  "to_string 0 = ''0''" "to_string 7 = ''7''" "to_string 12 = ''12''"
  "to_string 4096 = ''4096''"
  by (simp_all add: to_string.simps)

lemma lookup_texCoords_Some:
  "lookup_texCoords (Some prog) is (names, w) =
     Inr (names @ map (\<lambda>i. sp_a prog (''texCoord'' @ to_string i)) is,
          emit (map (\<lambda>i. ShaderProgram_a (''texCoord'' @ to_string i)) is) w)"
  by (induction "is" arbitrary: names w) (simp_all add: emit_def)

lemma lookup_texCoords_trace:
  "lookup_texCoords sp is (names, w) = Inr (names', w') \<Longrightarrow>
     \<exists>evs. trace w' = trace w @ evs \<and> (\<forall>p. count_list evs (decode p) = 0)"
proof (induction "is" arbitrary: names w)
  case Nil
  then show ?case by simp
next
  case (Cons i "is")
  then obtain prog where sp: "sp = Some prog" by (cases sp) auto
  from Cons.prems show ?case
    unfolding sp lookup_texCoords_Some by (auto simp: count_list_0_iff)
qed

subsection \<open>readTexture\<close>

text \<open>One call of \<open>readTexture\<close> calls the decoder once, for its file, and looks no attribute up.\<close>

lemma readTexture_trace:
  "\<exists>evs. trace (snd (readTexture env p w)) = trace w @ evs \<and>
     (\<forall>q. count_list evs (decode q) = (if q = p then 1 else 0))"
  by (auto simp: Let_def)

lemma readTexture_failure:
  "png_error (lodepng_decode env p) \<noteq> 0 \<Longrightarrow> fst (readTexture env p w) = 0"
  by (simp add: Let_def)

lemma readTexture_no_lookup: 
  "\<exists>evs. trace (snd (readTexture env p w)) = trace w @ evs \<and> (\<forall>n. ShaderProgram_a n \<notin> set evs)"
  by (auto simp: Let_def readTexture.simps)

declare readTexture.simps [simp del]

subsection \<open>The relation between the states of a walk\<close>

text \<open>The relation \<open>grows\<close> holds of a state and itself, and composes.\<close>

lemma grows_refl: "grows env sc s s"
  by (simp add: grows_def)

lemma grows_frame:
  "grows env sc s s' \<Longrightarrow>
     shaderprogram (fst s') = shaderprogram (fst s) \<and> scene (fst s') = scene (fst s)"
  by (simp add: grows_def)

lemma grows_cache: "grows env sc s s' \<Longrightarrow> loadedTextures (fst s) \<subseteq>\<^sub>m loadedTextures (fst s')"
  by (simp add: grows_def)

lemma grows_failed:
  "grows env sc s s' \<Longrightarrow> p \<in> dom (loadedTextures (fst s')) \<Longrightarrow>
     p \<notin> dom (loadedTextures (fst s)) \<Longrightarrow> png_error (lodepng_decode env p) \<noteq> 0 \<Longrightarrow>
     loadedTextures (fst s') p = Some 0"
  by (simp add: grows_def)

lemma grows_meshes:
  "grows env sc s s' \<Longrightarrow>
     \<exists>new. meshes (fst s') = meshes (fst s) @ new \<and>
        (\<forall>M \<in> set new. \<forall>p. texture_path sc (pointee (mesh M)) = Some p \<longrightarrow>
           (\<exists>h. loadedTextures (fst s') p = Some h \<and> meshTextures M = [h]))"
  by (simp add: grows_def)

lemma grows_trace:
  "grows env sc s s' \<Longrightarrow>
     \<exists>evs. trace (snd s') = trace (snd s) @ evs \<and>
        (\<forall>p. count_list evs (decode p) =
           (if p \<in> dom (loadedTextures (fst s')) \<and> p \<notin> dom (loadedTextures (fst s))
            then 1 else 0))"
  by (simp add: grows_def)

lemma map_le_Some: "f \<subseteq>\<^sub>m g \<Longrightarrow> f p = Some h \<Longrightarrow> g p = Some h"
  by (metis domI map_le_def)

lemma grows_trans:
  assumes g1: "grows env sc s s'" and g2: "grows env sc s' s''"
  shows "grows env sc s s''"
proof -
  note c1 = grows_cache [OF g1] and c2 = grows_cache [OF g2]
  have d1: "dom (loadedTextures (fst s)) \<subseteq> dom (loadedTextures (fst s'))"
    using c1 by (rule map_le_implies_dom_le)
  have d2: "dom (loadedTextures (fst s')) \<subseteq> dom (loadedTextures (fst s''))"
    using c2 by (rule map_le_implies_dom_le)
  from grows_meshes [OF g1] obtain new1 where
    m1: "meshes (fst s') = meshes (fst s) @ new1" and
    t1: "\<And>M p. M \<in> set new1 \<Longrightarrow> texture_path sc (pointee (mesh M)) = Some p \<Longrightarrow>
           \<exists>h. loadedTextures (fst s') p = Some h \<and> meshTextures M = [h]"
    by blast
  from grows_meshes [OF g2] obtain new2 where
    m2: "meshes (fst s'') = meshes (fst s') @ new2" and
    t2: "\<And>M p. M \<in> set new2 \<Longrightarrow> texture_path sc (pointee (mesh M)) = Some p \<Longrightarrow>
           \<exists>h. loadedTextures (fst s'') p = Some h \<and> meshTextures M = [h]"
    by blast
  from grows_trace [OF g1] obtain evs1 where
    e1: "trace (snd s') = trace (snd s) @ evs1" and
    n1: "\<And>p. count_list evs1 (decode p) =
           (if p \<in> dom (loadedTextures (fst s')) \<and> p \<notin> dom (loadedTextures (fst s))
            then 1 else 0)"
    by blast
  from grows_trace [OF g2] obtain evs2 where
    e2: "trace (snd s'') = trace (snd s') @ evs2" and
    n2: "\<And>p. count_list evs2 (decode p) =
           (if p \<in> dom (loadedTextures (fst s'')) \<and> p \<notin> dom (loadedTextures (fst s'))
            then 1 else 0)"
    by blast
  show ?thesis
    unfolding grows_def
  proof (intro conjI allI impI)
    show "shaderprogram (fst s'') = shaderprogram (fst s)"
      using grows_frame [OF g1] grows_frame [OF g2] by simp
    show "scene (fst s'') = scene (fst s)"
      using grows_frame [OF g1] grows_frame [OF g2] by simp
    show "loadedTextures (fst s) \<subseteq>\<^sub>m loadedTextures (fst s'')"
      using c1 c2 by (rule map_le_trans)
  next
    fix p
    assume p: "p \<in> dom (loadedTextures (fst s''))" "p \<notin> dom (loadedTextures (fst s))"
      "png_error (lodepng_decode env p) \<noteq> 0"
    show "loadedTextures (fst s'') p = Some 0"
    proof (cases "p \<in> dom (loadedTextures (fst s'))")
      case True
      then have "loadedTextures (fst s') p = Some 0"
        using grows_failed [OF g1] p by blast
      with c2 show ?thesis by (rule map_le_Some)
    next
      case False
      then show ?thesis using grows_failed [OF g2] p by blast
    qed
  next
    have "\<exists>h. loadedTextures (fst s'') p = Some h \<and> meshTextures M = [h]"
      if M: "M \<in> set (new1 @ new2)" and tp: "texture_path sc (pointee (mesh M)) = Some p" for M p
    proof (cases "M \<in> set new2")
      case True
      then show ?thesis using t2 tp by blast
    next
      case False
      with M have "M \<in> set new1" by simp
      then obtain h where "loadedTextures (fst s') p = Some h" "meshTextures M = [h]"
        using t1 tp by blast
      then show ?thesis using map_le_Some [OF c2] by blast
    qed
    moreover have "meshes (fst s'') = meshes (fst s) @ (new1 @ new2)"
      using m1 m2 by simp
    ultimately show "\<exists>new. meshes (fst s'') = meshes (fst s) @ new \<and>
        (\<forall>M \<in> set new. \<forall>p. texture_path sc (pointee (mesh M)) = Some p \<longrightarrow>
           (\<exists>h. loadedTextures (fst s'') p = Some h \<and> meshTextures M = [h]))"
      by blast
  next
    have "count_list (evs1 @ evs2) (decode p) =
           (if p \<in> dom (loadedTextures (fst s'')) \<and> p \<notin> dom (loadedTextures (fst s))
            then 1 else 0)" for p
    proof -
      consider "p \<in> dom (loadedTextures (fst s))"
        | "p \<notin> dom (loadedTextures (fst s))" "p \<in> dom (loadedTextures (fst s'))"
        | "p \<notin> dom (loadedTextures (fst s'))" "p \<in> dom (loadedTextures (fst s''))"
        | "p \<notin> dom (loadedTextures (fst s''))"
        by blast
      then show ?thesis
      proof cases
        case 1
        then have "p \<in> dom (loadedTextures (fst s'))" using d1 by blast
        with 1 show ?thesis by (simp add: n1 n2)
      next
        case 2
        then have "p \<in> dom (loadedTextures (fst s''))" using d2 by blast
        with 2 show ?thesis by (simp add: n1 n2)
      next
        case 3
        then have "p \<notin> dom (loadedTextures (fst s))" using d1 by blast
        with 3 show ?thesis by (simp add: n1 n2)
      next
        case 4
        then have "p \<notin> dom (loadedTextures (fst s'))" using d2 by blast
        with 4 show ?thesis by (simp add: n1 n2)
      qed
    qed
    moreover have "trace (snd s'') = trace (snd s) @ (evs1 @ evs2)"
      using e1 e2 by simp
    ultimately show "\<exists>evs. trace (snd s'') = trace (snd s) @ evs \<and>
        (\<forall>p. count_list evs (decode p) =
           (if p \<in> dom (loadedTextures (fst s'')) \<and> p \<notin> dom (loadedTextures (fst s))
            then 1 else 0))"
      by blast
  qed
qed

subsection \<open>processMesh\<close>

text \<open>The three ways in which \<open>processMesh\<close> returns for a mesh that is not null: the material has no diffuse texture, the path is in the cache, or it is not and the texture is read.\<close>

lemma meshes_push_back [simp]: "meshes (push_back M m) = meshes m @ [M]"
  by (simp add: push_back_def)

lemma loadedTextures_push_back [simp]: "loadedTextures (push_back M m) = loadedTextures m"
  by (simp add: push_back_def)

lemma shaderprogram_push_back [simp]: "shaderprogram (push_back M m) = shaderprogram m"
  by (simp add: push_back_def)

lemma scene_push_back [simp]: "scene (push_back M m) = scene m"
  by (simp add: push_back_def)

lemma stored_sel [simp]:
  "mesh (stored mp names texs) = mp"
  "indices (stored mp names texs) = flatten_faces (mFaces (pointee mp)) []"
  "texCoordsAttributes (stored mp names texs) = names"
  "meshTextures (stored mp names texs) = texs"
  by (simp_all add: stored_def)

lemma processMesh_Some_cases:
  assumes "processMesh env (Some mp) sc (m, w) = Inr (m', w')"
  obtains
    (none) names w1 where
      "lookup_texCoords (shaderprogram m) [0 ..< GetNumUVChannels (pointee mp)] ([], w) = Inr (names, w1)"
      "mMaterialIndex (pointee mp) < length (mMaterials sc)"
      "texture_path sc (pointee mp) = None" "m' = push_back (stored mp names []) m" "w' = w1"
  | (hit) names w1 p h where
      "lookup_texCoords (shaderprogram m) [0 ..< GetNumUVChannels (pointee mp)] ([], w) = Inr (names, w1)"
      "mMaterialIndex (pointee mp) < length (mMaterials sc)"
      "texture_path sc (pointee mp) = Some p" "loadedTextures m p = Some h"
      "m' = push_back (stored mp names [h]) m" "w' = w1"
  | (miss) names w1 p where
      "lookup_texCoords (shaderprogram m) [0 ..< GetNumUVChannels (pointee mp)] ([], w) = Inr (names, w1)"
      "mMaterialIndex (pointee mp) < length (mMaterials sc)"
      "texture_path sc (pointee mp) = Some p" "loadedTextures m p = None"
      "m' = push_back (stored mp names [fst (readTexture env p w1)])
               (m\<lparr>loadedTextures := (loadedTextures m)(p \<mapsto> fst (readTexture env p w1))\<rparr>)"
      "w' = snd (readTexture env p w1)"
proof (cases "lookup_texCoords (shaderprogram m) [0 ..< GetNumUVChannels (pointee mp)] ([], w)")
  case (Inl f)
  with assms show ?thesis by simp
next
  case (Inr r)
  obtain names w1 where r: "r = (names, w1)" by (cases r)
  note lk = Inr [unfolded r]
  show ?thesis
  proof (cases "mMaterialIndex (pointee mp) < length (mMaterials sc)")
    case False
    with assms lk show ?thesis by simp
  next
    case True
    show ?thesis
    proof (cases "GetTexture_DIFFUSE_0 (mMaterials sc ! mMaterialIndex (pointee mp))")
      case None
      with assms lk True have "m' = push_back (stored mp names []) m" "w' = w1"
        by (simp_all add: stored_def)
      moreover from True None have "texture_path sc (pointee mp) = None"
        by (simp add: texture_path_def)
      ultimately show ?thesis using lk True by (intro none)
    next
      case (Some p)
      with True have tp: "texture_path sc (pointee mp) = Some p"
        by (simp add: texture_path_def)
      show ?thesis
      proof (cases "loadedTextures m p")
        case None
        with assms lk True Some
        have "m' = push_back (stored mp names [fst (readTexture env p w1)])
               (m\<lparr>loadedTextures := (loadedTextures m)(p \<mapsto> fst (readTexture env p w1))\<rparr>)"
            "w' = snd (readTexture env p w1)"
          by (simp_all add: stored_def split: prod.splits)
        then show ?thesis using lk True tp None by (intro miss)
      next
        case (Some h)
        with assms lk True \<open>GetTexture_DIFFUSE_0 (mMaterials sc ! mMaterialIndex (pointee mp)) = Some p\<close>
        have "m' = push_back (stored mp names [h]) m" "w' = w1"
          by (simp_all add: stored_def)
        then show ?thesis using lk True tp Some by (intro hit)
      qed
    qed
  qed
qed

lemma processMesh_grows:
  assumes "processMesh env mp sc s = Inr s'"
  shows "grows env sc s s'"
proof (cases mp)
  case None
  obtain m w where s: "s = (m, w)" by (cases s)
  from assms None s have "s' = (m, emit [Cerr ''Null mesh encountered.''] w)" by simp
  then show ?thesis by (simp add: grows_def s)
next
  case (Some mp)
  obtain m w where s: "s = (m, w)" by (cases s)
  obtain m' w' where s': "s' = (m', w')" by (cases s')
  from assms Some s s' have pm: "processMesh env (Some mp) sc (m, w) = Inr (m', w')" by simp
  from pm show ?thesis
  proof (cases rule: processMesh_Some_cases)
    case (none names w1)
    from lookup_texCoords_trace [OF none(1)] obtain evs0 where
      "trace w1 = trace w @ evs0" "\<And>q. count_list evs0 (decode q) = 0"
      by blast
    with none show ?thesis by (simp add: grows_def s s')
  next
    case (hit names w1 p h)
    from lookup_texCoords_trace [OF hit(1)] obtain evs0 where
      "trace w1 = trace w @ evs0" "\<And>q. count_list evs0 (decode q) = 0"
      by blast
    with hit show ?thesis by (simp add: grows_def s s')
  next
    case (miss names w1 p)
    from lookup_texCoords_trace [OF miss(1)] obtain evs0 where
      e0: "trace w1 = trace w @ evs0" and n0: "\<And>q. count_list evs0 (decode q) = 0"
      by blast
    from readTexture_trace [of env p w1] obtain evs where
      e: "trace (snd (readTexture env p w1)) = trace w1 @ evs" and
      n: "\<And>q. count_list evs (decode q) = (if q = p then 1 else 0)"
      by blast
    have le: "loadedTextures m \<subseteq>\<^sub>m (loadedTextures m)(p \<mapsto> fst (readTexture env p w1))"
      using miss(4) by (auto simp: map_le_def)
    have tr: "trace w' = trace w @ (evs0 @ evs)"
      using miss(6) e e0 by simp
    have cnt: "count_list (evs0 @ evs) (decode q) =
        (if q \<in> dom (loadedTextures m') \<and> q \<notin> dom (loadedTextures m) then 1 else 0)" for q
      using miss(4,5) by (auto simp: n n0 dom_def)
    show ?thesis
      unfolding grows_def s s' fst_conv snd_conv
    proof (intro conjI allI impI)
      show "shaderprogram m' = shaderprogram m" "scene m' = scene m"
        using miss(5) by simp_all
      show "loadedTextures m \<subseteq>\<^sub>m loadedTextures m'"
        using miss(5) le by simp
      show "\<exists>new. meshes m' = meshes m @ new \<and>
         (\<forall>M\<in>set new. \<forall>p. texture_path sc (pointee (mesh M)) = Some p \<longrightarrow>
            (\<exists>h. loadedTextures m' p = Some h \<and> meshTextures M = [h]))"
        using miss(3,5) by simp
      show "\<exists>evs. trace w' = trace w @ evs \<and>
         (\<forall>p. count_list evs (decode p) =
            (if p \<in> dom (loadedTextures m') \<and> p \<notin> dom (loadedTextures m) then 1 else 0))"
        using tr cnt by blast
    next
      fix q
      assume "q \<in> dom (loadedTextures m')" "q \<notin> dom (loadedTextures m)"
        "png_error (lodepng_decode env q) \<noteq> 0"
      then show "loadedTextures m' q = Some 0"
        using miss(5) readTexture_failure [of env q w1] by (auto split: if_splits)
    qed
  qed
qed

declare processMesh.simps [simp del]

lemma processMesh_Some_result:
  assumes sp: "shaderprogram m = Some prog" and mat: "mMaterialIndex (pointee mp) < length (mMaterials sc)"
  shows "\<exists>m' w' texs rest. processMesh env (Some mp) sc (m, w) = Inr (m', w') \<and>
     shaderprogram m' = Some prog \<and>
     meshes m' = meshes m @ [stored mp (map (\<lambda>i. sp_a prog (texCoord_name i))
                                       [0 ..< GetNumUVChannels (pointee mp)]) texs] \<and>
     trace w' = trace w @ map (\<lambda>i. ShaderProgram_a (texCoord_name i))
                              [0 ..< GetNumUVChannels (pointee mp)] @ rest \<and>
     (\<forall>n. ShaderProgram_a n \<notin> set rest)"
proof -
  let ?names = "map (\<lambda>i. sp_a prog (texCoord_name i)) [0 ..< GetNumUVChannels (pointee mp)]"
  let ?w1 = "emit (map (\<lambda>i. ShaderProgram_a (texCoord_name i))
                    [0 ..< GetNumUVChannels (pointee mp)]) w"
  have lk: "lookup_texCoords (shaderprogram m) [0 ..< GetNumUVChannels (pointee mp)] ([], w)
              = Inr (?names, ?w1)"
    by (simp add: sp lookup_texCoords_Some texCoord_name_def)
  show ?thesis
  proof (cases "GetTexture_DIFFUSE_0 (mMaterials sc ! mMaterialIndex (pointee mp))")
    case None
    then have "processMesh env (Some mp) sc (m, w) = Inr (push_back (stored mp ?names []) m, ?w1)"
      by (simp add: processMesh.simps lk mat stored_def)
    then show ?thesis by (auto simp: sp)
  next
    case (Some p)
    show ?thesis
    proof (cases "loadedTextures m p")
      case None
      obtain evs where evs: "trace (snd (readTexture env p ?w1)) = trace ?w1 @ evs"
        "\<forall>n. ShaderProgram_a n \<notin> set evs"
        using readTexture_no_lookup by blast
      from None Some
      have "processMesh env (Some mp) sc (m, w) =
              Inr (push_back (stored mp ?names [fst (readTexture env p ?w1)])
                     (m\<lparr>loadedTextures := (loadedTextures m)(p \<mapsto> fst (readTexture env p ?w1))\<rparr>),
                   snd (readTexture env p ?w1))"
        by (simp add: processMesh.simps lk mat stored_def split: prod.splits)
      then show ?thesis using evs by (auto simp: sp)
    next
      case (Some h)
      with \<open>GetTexture_DIFFUSE_0 (mMaterials sc ! mMaterialIndex (pointee mp)) = Some p\<close>
      have "processMesh env (Some mp) sc (m, w) = Inr (push_back (stored mp ?names [h]) m, ?w1)"
        by (simp add: processMesh.simps lk mat stored_def)
      then show ?thesis by (auto simp: sp)
    qed
  qed
qed

subsection \<open>The walk over the tree\<close>

text \<open>The walk is the run of \<open>processMesh\<close> over the mesh references of the nodes in pre-order; on a valid scene it returns, with one Mesh more for every reference.\<close>

lemma process_meshes_grows:
  "process_meshes env k is sc s = Inr s' \<Longrightarrow> grows env sc s s'"
proof (induction "is" arbitrary: s)
  case Nil
  then show ?case by (simp add: grows_refl)
next
  case (Cons i "is")
  from Cons.prems obtain s1 where
    1: "processMesh env (mesh_at k sc i) sc s = Inr s1" and
    2: "process_meshes env k is sc s1 = Inr s'"
    by (auto split: if_splits sum.splits)
  from processMesh_grows [OF 1] Cons.IH [OF 2] show ?case by (rule grows_trans)
qed

lemma process_meshes_append:
  "process_meshes env k (xs @ ys) sc s =
     (case process_meshes env k xs sc s of
        Inl f \<Rightarrow> Inl f
      | Inr s' \<Rightarrow> process_meshes env k ys sc s')"
  by (induction xs arbitrary: s) (simp_all split: sum.splits)

lemma processNode_preorder:
  "processNode env k node sc s =
     process_meshes env k (concat (map node_mMeshes (preorder node))) sc s"
  and process_children_preorder:
  "process_children env k nodes sc s =
     process_meshes env k (concat (map node_mMeshes (concat (map preorder nodes)))) sc s"
proof (induction env k node sc s and env k nodes sc s rule: processNode_process_children.induct)
  case (1 env k ms cs sc s)
  then show ?case by (simp add: process_meshes_append split: sum.splits)
next
  case (2 env k sc s)
  then show ?case by simp
next
  case (3 env k c cs sc s)
  then show ?case by (simp add: process_meshes_append split: sum.splits)
qed

lemma mesh_in_sel [simp]: "importer (mesh_in k me) = k" "pointee (mesh_in k me) = me"
  by (simp_all add: mesh_in_def)

lemma process_meshes_ok:
  assumes "shaderprogram (fst s) = Some prog" and "list_all (valid_ref sc) is"
  shows "\<exists>s' new. process_meshes env k is sc s = Inr s' \<and>
           meshes (fst s') = meshes (fst s) @ new \<and>
           map (\<lambda>M. Some (mesh M)) new = map (mesh_at k sc) is"
  using assms
proof (induction "is" arbitrary: s)
  case Nil
  then show ?case by simp
next
  case (Cons i "is")
  obtain m w where s: "s = (m, w)" by (cases s)
  from Cons.prems(2) obtain me where
    i: "i < length (mMeshes sc)" "mMeshes sc ! i = Some me"
       "mMaterialIndex me < length (mMaterials sc)"
    by (auto simp: valid_ref_def split: option.splits)
  from i(2) have at: "mesh_at k sc i = Some (mesh_in k me)"
    by (simp add: mesh_at_def)
  from i(3) have mat: "mMaterialIndex (pointee (mesh_in k me)) < length (mMaterials sc)"
    by simp
  from Cons.prems(1) s have sp: "shaderprogram m = Some prog" by simp
  from processMesh_Some_result [OF sp mat, of env w] obtain m' w' names texs where
    pm: "processMesh env (Some (mesh_in k me)) sc (m, w) = Inr (m', w')" and
    sp': "shaderprogram m' = Some prog" and
    ms: "meshes m' = meshes m @ [stored (mesh_in k me) names texs]"
    by blast
  from Cons.IH [of "(m', w')"] sp' Cons.prems(2) obtain s' new where
    rest: "process_meshes env k is sc (m', w') = Inr s'"
      "meshes (fst s') = meshes m' @ new"
      "map (\<lambda>M. Some (mesh M)) new = map (mesh_at k sc) is"
    by auto
  have "process_meshes env k (i # is) sc s = Inr s'"
    using pm i(1) at rest(1) s by simp
  moreover have "meshes (fst s') = meshes (fst s) @ stored (mesh_in k me) names texs # new"
    using ms rest(2) s by simp
  moreover have "map (\<lambda>M. Some (mesh M)) (stored (mesh_in k me) names texs # new)
      = map (mesh_at k sc) (i # is)"
    using rest(3) at by (simp add: stored_sel)
  ultimately show ?case by blast
qed

lemma valid_scene_refs:
  "valid_scene sc \<Longrightarrow>
     list_all (valid_ref sc) (concat (map node_mMeshes (preorder (mRootNode sc))))"
  by (auto simp: valid_scene_def valid_ref_def list_all_iff split: option.splits)

lemma length_preorder: "length (preorder node) = count_nodes node"
proof (induction node)
  case (aiNode ms cs)
  then show ?case
    by (simp add: length_concat_sum) (metis (mono_tags, lifting) map_eq_conv)
qed

subsection \<open>loadModel\<close>

lemma loadModel_scene:
  assumes rf: "Importer_ReadFile env pFile = Some sc" and ne: "mMeshes sc \<noteq> []"
    and v: "valid_scene sc"
  shows "\<exists>m' w1 new. loadModel env pFile (Some prog) (m, w) =
             Inr (m', destroy_Importer (importers w)
                        (emit [Cout (''Number of meshes processed: ''
                                 @ to_string (length (meshes m')))] w1)) \<and>
           grows env sc
             (m\<lparr>shaderprogram := Some prog, scene := Some sc\<rparr>,
              emit [Cout (''Model loaded successfully: '' @ pFile)]
                (emit [ReadFile pFile] (construct_Importer w)))
             (m', w1) \<and>
           meshes m' = meshes m @ new \<and>
           map (\<lambda>M. Some (mesh M)) new =
             map (mesh_at (importers w) sc)
               (concat (map node_mMeshes (preorder (mRootNode sc))))"
proof -
  let ?s = "(m\<lparr>shaderprogram := Some prog, scene := Some sc\<rparr>,
             emit [Cout (''Model loaded successfully: '' @ pFile)]
               (emit [ReadFile pFile] (construct_Importer w)))"
  let ?refs = "concat (map node_mMeshes (preorder (mRootNode sc)))"
  have "shaderprogram (fst ?s) = Some prog" by simp
  from process_meshes_ok [OF this valid_scene_refs [OF v], of env "importers w"]
  obtain s' new where
    pm: "process_meshes env (importers w) ?refs sc ?s = Inr s'" and
    ms: "meshes (fst s') = meshes (fst ?s) @ new" and
    ptrs: "map (\<lambda>M. Some (mesh M)) new = map (mesh_at (importers w) sc) ?refs"
    by blast
  obtain m' w1 where s': "s' = (m', w1)" by (cases s')
  have pn: "processNode env (importers w) (mRootNode sc) sc ?s = Inr (m', w1)"
    using pm s' by (simp add: processNode_preorder)
  have g: "grows env sc ?s (m', w1)"
    using process_meshes_grows [OF pm] s' by simp
  have "loadModel env pFile (Some prog) (m, w) =
          Inr (m', destroy_Importer (importers w)
                     (emit [Cout (''Number of meshes processed: ''
                              @ to_string (length (meshes m')))] w1))"
    using rf ne pn by (simp add: Let_def)
  moreover have "meshes m' = meshes m @ new"
    using ms s' by simp
  ultimately show ?thesis using g ptrs by blast
qed

lemma count_list_decode_log [simp]:
  "count_list (ReadFile f # Cout t # evs @ [Cout t']) (decode p) = count_list evs (decode p)"
  by simp

lemma loadModel_summary:
  assumes rf: "Importer_ReadFile env pFile = Some sc" and ne: "mMeshes sc \<noteq> []"
    and v: "valid_scene sc"
  obtains m' w' new evs where
    "loadModel env pFile (Some prog) (m, w) = Inr (m', w')"
    "meshes m' = meshes m @ new"
    "length new = (\<Sum>node\<leftarrow>preorder (mRootNode sc). mNumMeshes node)"
    "loadedTextures m \<subseteq>\<^sub>m loadedTextures m'"
    "\<And>M p. M \<in> set new \<Longrightarrow> texture_path sc (pointee (mesh M)) = Some p \<Longrightarrow>
        \<exists>h. loadedTextures m' p = Some h \<and> meshTextures M = [h]"
    "\<And>p. p \<in> dom (loadedTextures m') \<Longrightarrow> p \<notin> dom (loadedTextures m) \<Longrightarrow>
        png_error (lodepng_decode env p) \<noteq> 0 \<Longrightarrow> loadedTextures m' p = Some 0"
    "trace w' = trace w @ evs"
    "\<And>p. count_list evs (decode p) =
        (if p \<in> dom (loadedTextures m') \<and> p \<notin> dom (loadedTextures m) then 1 else 0)"
proof -
  let ?s = "(m\<lparr>shaderprogram := Some prog, scene := Some sc\<rparr>,
             emit [Cout (''Model loaded successfully: '' @ pFile)]
               (emit [ReadFile pFile] (construct_Importer w)))"
  let ?refs = "concat (map node_mMeshes (preorder (mRootNode sc)))"
  from loadModel_scene [OF rf ne v, of prog m w] obtain m' w1 new0 where
    lm: "loadModel env pFile (Some prog) (m, w) =
           Inr (m', destroy_Importer (importers w)
                      (emit [Cout (''Number of meshes processed: ''
                               @ to_string (length (meshes m')))] w1))" and
    g: "grows env sc ?s (m', w1)" and
    new0: "meshes m' = meshes m @ new0" and
    ptrs: "map (\<lambda>M. Some (mesh M)) new0 = map (mesh_at (importers w) sc) ?refs"
    by blast
  from arg_cong [OF ptrs, of length] have "length new0 = length ?refs" by simp
  with new0 have len: "length (meshes m') =
      length (meshes m) + (\<Sum>node\<leftarrow>preorder (mRootNode sc). mNumMeshes node)"
    by (simp add: length_concat_sum)
  from grows_meshes [OF g] obtain new where
    new: "meshes m' = meshes m @ new" and
    tex: "\<And>M p. M \<in> set new \<Longrightarrow> texture_path sc (pointee (mesh M)) = Some p \<Longrightarrow>
        \<exists>h. loadedTextures m' p = Some h \<and> meshTextures M = [h]"
    by auto
  from grows_trace [OF g] obtain evs1 where
    tr: "trace w1 = trace w @ [ReadFile pFile, Cout (''Model loaded successfully: '' @ pFile)]
           @ evs1" and
    cnt: "\<And>p. count_list evs1 (decode p) =
        (if p \<in> dom (loadedTextures m') \<and> p \<notin> dom (loadedTextures m) then 1 else 0)"
    by auto
  let ?evs = "[ReadFile pFile, Cout (''Model loaded successfully: '' @ pFile)] @ evs1
               @ [Cout (''Number of meshes processed: '' @ to_string (length (meshes m')))]"
  show thesis
  proof (rule that [of m' _ new ?evs])
    show "loadModel env pFile (Some prog) (m, w) =
           Inr (m', destroy_Importer (importers w)
                      (emit [Cout (''Number of meshes processed: ''
                               @ to_string (length (meshes m')))] w1))"
      by (rule lm)
    show "meshes m' = meshes m @ new" by (rule new)
    show "length new = (\<Sum>node\<leftarrow>preorder (mRootNode sc). mNumMeshes node)"
      using len new by simp
    show "loadedTextures m \<subseteq>\<^sub>m loadedTextures m'"
      using grows_cache [OF g] by simp
    show "\<exists>h. loadedTextures m' p = Some h \<and> meshTextures M = [h]"
      if "M \<in> set new" "texture_path sc (pointee (mesh M)) = Some p" for M p
      using tex that by blast
    show "loadedTextures m' p = Some 0"
      if "p \<in> dom (loadedTextures m')" "p \<notin> dom (loadedTextures m)"
        "png_error (lodepng_decode env p) \<noteq> 0" for p
      using grows_failed [OF g, of p] that by simp
    show "trace (destroy_Importer (importers w)
                   (emit [Cout (''Number of meshes processed: ''
                            @ to_string (length (meshes m')))] w1)) = trace w @ ?evs"
      using tr by simp
    show "count_list ?evs (decode p) =
        (if p \<in> dom (loadedTextures m') \<and> p \<notin> dom (loadedTextures m) then 1 else 0)" for p
      using cnt [of p] by simp
  qed
qed

text \<open>
  Where the load returns: the meshes it stored are those that the nodes reference, in
  pre-order, each a pointer into the scene of the Importer of this call; the last line of
  the log prints the number of meshes of the Model; and that Importer is destroyed.
\<close>

lemma loadModel_stored:
  assumes rf: "Importer_ReadFile env pFile = Some sc" and ne: "mMeshes sc \<noteq> []"
    and v: "valid_scene sc"
  obtains m' w' new pre where
    "loadModel env pFile (Some prog) (m, w) = Inr (m', w')"
    "meshes m' = meshes m @ new"
    "map (\<lambda>M. Some (mesh M)) new =
       map (mesh_at (importers w) sc) (concat (map node_mMeshes (preorder (mRootNode sc))))"
    "trace w' = pre @ [Cout (''Number of meshes processed: '' @ to_string (length (meshes m')))]"
    "shaderprogram m' = Some prog"
    "importers w \<notin> live w'"
proof -
  let ?s = "(m\<lparr>shaderprogram := Some prog, scene := Some sc\<rparr>,
             emit [Cout (''Model loaded successfully: '' @ pFile)]
               (emit [ReadFile pFile] (construct_Importer w)))"
  from loadModel_scene [OF rf ne v, of prog m w] obtain m' w1 new where
    lm: "loadModel env pFile (Some prog) (m, w) =
           Inr (m', destroy_Importer (importers w)
                      (emit [Cout (''Number of meshes processed: ''
                               @ to_string (length (meshes m')))] w1))" and
    g: "grows env sc ?s (m', w1)" and
    new: "meshes m' = meshes m @ new" and
    ptrs: "map (\<lambda>M. Some (mesh M)) new =
       map (mesh_at (importers w) sc) (concat (map node_mMeshes (preorder (mRootNode sc))))"
    by blast
  show thesis
  proof (rule that [of m' _ new "trace w1"])
    show "loadModel env pFile (Some prog) (m, w) =
           Inr (m', destroy_Importer (importers w)
                      (emit [Cout (''Number of meshes processed: ''
                               @ to_string (length (meshes m')))] w1))"
      by (rule lm)
    show "meshes m' = meshes m @ new" by (rule new)
    show "map (\<lambda>M. Some (mesh M)) new =
       map (mesh_at (importers w) sc) (concat (map node_mMeshes (preorder (mRootNode sc))))"
      by (rule ptrs)
    show "trace (destroy_Importer (importers w)
                   (emit [Cout (''Number of meshes processed: ''
                            @ to_string (length (meshes m')))] w1))
          = trace w1 @ [Cout (''Number of meshes processed: ''
                           @ to_string (length (meshes m')))]"
      by simp
    show "shaderprogram m' = Some prog"
      using grows_frame [OF g] by simp
    show "importers w \<notin> live (destroy_Importer (importers w)
                   (emit [Cout (''Number of meshes processed: ''
                            @ to_string (length (meshes m')))] w1))"
      by simp
  qed
qed

lemma loadModel_preorder:
  "loadModel env pFile sp (m, w) =
     (case Importer_ReadFile env pFile of
        None \<Rightarrow>
          Inr (m\<lparr>shaderprogram := sp, scene := None\<rparr>,
               destroy_Importer (importers w)
                 (emit [ReadFile pFile,
                        Cerr (''Error loading model: '' @ Importer_GetErrorString env pFile)]
                    (construct_Importer w)))
      | Some sc \<Rightarrow>
          if mMeshes sc = [] then
            Inr (m\<lparr>shaderprogram := sp, scene := Some sc\<rparr>,
                 destroy_Importer (importers w)
                   (emit [ReadFile pFile, Cout (''Model loaded successfully: '' @ pFile),
                          Cerr ''No meshes found in the model.''] (construct_Importer w)))
          else
            (case process_meshes env (importers w)
                    (concat (map node_mMeshes (preorder (mRootNode sc)))) sc
                    (m\<lparr>shaderprogram := sp, scene := Some sc\<rparr>,
                     emit [ReadFile pFile, Cout (''Model loaded successfully: '' @ pFile)]
                       (construct_Importer w)) of
               Inl f \<Rightarrow> Inl f
             | Inr (m2, w3) \<Rightarrow>
                 Inr (m2, destroy_Importer (importers w)
                            (emit [Cout (''Number of meshes processed: ''
                                     @ to_string (length (meshes m2)))] w3))))"
  by (simp add: loadModel.simps Let_def emit_emit processNode_preorder split: option.splits)

declare loadModel.simps [simp del]

subsection \<open>drawMesh and the state of the graphics API\<close>

lemma max_gl_step [simp]: "max_vertex_attribs (gl_step ev g) = max_vertex_attribs g"
  by (cases ev) simp_all

lemma gl_run_Nil: "gl_run [] g = g"
  by (simp add: gl_run_def)

lemma gl_run_Cons: "gl_run (ev # evs) g = gl_run evs (gl_step ev g)"
  by (simp add: gl_run_def)

lemma gl_run_append: "gl_run (xs @ ys) g = gl_run ys (gl_run xs g)"
  by (simp add: gl_run_def)

lemma max_gl_run [simp]: "max_vertex_attribs (gl_run evs g) = max_vertex_attribs g"
  by (induction evs arbitrary: g) (simp_all add: gl_run_Nil gl_run_Cons)

lemma bind_texCoords_events:
  "bind_texCoords ts buf w = emit (enable_bind_disable buf ts) w"
  by (induction ts arbitrary: w) (simp_all add: enable_bind_disable_def emit_emit)

lemma enable_bind_disable_off:
  "t \<in> set ts \<or> \<not> attrib_array_on g t \<Longrightarrow>
     \<not> attrib_array_on (gl_run (enable_bind_disable buf ts) g) t"
proof (induction ts arbitrary: g)
  case Nil
  then show ?case by (simp add: enable_bind_disable_def gl_run_Nil)
next
  case (Cons t' ts)
  let ?g1 = "gl_step (glDisableVertexAttribArray t')
               (gl_step (glVertexAttribPointer t' 2 buf)
                  (gl_step (glEnableVertexAttribArray t') g))"
  have run: "gl_run (enable_bind_disable buf (t' # ts)) g
               = gl_run (enable_bind_disable buf ts) ?g1"
    by (simp add: enable_bind_disable_def gl_run_Cons)
  have "t \<in> set ts \<or> \<not> attrib_array_on ?g1 t"
    using Cons.prems by (auto simp: attrib_array_on_def)
  then show ?case unfolding run by (rule Cons.IH)
qed

lemma bind_textures_events:
  "\<exists>evs. bind_textures prog i hs w = emit evs w \<and> (\<forall>ev \<in> set evs. \<not> is_draw ev) \<and>
     (\<forall>g t. attrib_array_on (gl_run evs g) t = attrib_array_on g t)"
proof (induction hs arbitrary: i w)
  case Nil
  show ?case by (intro exI [of _ "[]"]) (simp add: gl_run_Nil)
next
  case (Cons h hs)
  let ?evs = "[glActiveTexture (GL_TEXTURE0 + of_nat i), glBindTexture h,
               ShaderProgram_u (''textureMap'' @ to_string i),
               glUniform1i (sp_u prog (''textureMap'' @ to_string i)) (of_nat i)]"
  from Cons.IH [of "Suc i" "emit ?evs w"] obtain evs where
    e: "bind_textures prog (Suc i) hs (emit ?evs w) = emit evs (emit ?evs w)" and
    d: "\<forall>ev \<in> set evs. \<not> is_draw ev" and
    a: "\<forall>g t. attrib_array_on (gl_run evs g) t = attrib_array_on g t"
    by blast
  show ?case
  proof (intro exI [of _ "?evs @ evs"] conjI)
    show "bind_textures prog i (h # hs) w = emit (?evs @ evs) w"
      using e by (simp add: emit_emit)
    show "\<forall>ev \<in> set (?evs @ evs). \<not> is_draw ev"
      using d by simp
    show "\<forall>g t. attrib_array_on (gl_run (?evs @ evs) g) t = attrib_array_on g t"
    proof (intro allI)
      fix g t
      have "attrib_array_on (gl_run ?evs g) t = attrib_array_on g t"
        by (simp add: attrib_array_on_def gl_run_Nil gl_run_Cons)
      with a show "attrib_array_on (gl_run (?evs @ evs) g) t = attrib_array_on g t"
        unfolding gl_run_append by blast
    qed
  qed
qed

lemma not_is_draw_enable_bind_disable:
  "\<forall>ev \<in> set (enable_bind_disable buf ts). \<not> is_draw ev"
  by (auto simp: enable_bind_disable_def)

lemma before_draw_split:
  "\<forall>ev \<in> set pre. \<not> is_draw ev \<Longrightarrow> before_draw (pre @ glDrawElements n idx # post) = pre"
  by (simp add: before_draw_def takeWhile_append2)

subsection \<open>The concrete scene\<close>

text \<open>The two loads of \<open>maze.obj\<close>, run by the simplifier: the first into the Model as it is constructed, the second into the Model that the first one left.\<close>

lemma quad_sel:
  "mFaces quad = [aiFace [0, 1, 2], aiFace [2, 3, 0]]" "GetNumUVChannels quad = 1"
  "mMaterialIndex quad = 0" "mVertices quad = Ptr 1" "mNormals quad = Ptr 2"
  "mTextureCoords quad 0 = Ptr 3"
  by (simp_all add: quad_def)

lemma tri_sel:
  "mFaces tri = [aiFace [0, 1, 2]]" "GetNumUVChannels tri = 2"
  "mMaterialIndex tri = 0" "mVertices tri = Ptr 4" "mNormals tri = Ptr 5"
  "mTextureCoords tri 0 = Ptr 6"
  by (simp_all add: tri_def)

lemma scene_lost_sel:
  "mMeshes scene_lost = [Some quad, Some tri]"
  "mMaterials scene_lost = [\<lparr>GetTexture_DIFFUSE_0 = Some ''lost.png''\<rparr>]"
  "mRootNode scene_lost = aiNode [0, 1] []"
  by (simp_all add: scene_lost_def)

lemma scene0_sel:
  "mMeshes scene0 = [Some quad, Some tri]"
  "mMaterials scene0 = [\<lparr>GetTexture_DIFFUSE_0 = Some ''wall.png''\<rparr>]"
  "mRootNode scene0 = aiNode [0] [aiNode [1] []]"
  by (simp_all add: scene0_def)

lemma plain_sel:
  "mFaces (plain n) = [aiFace [0, 1, 2]]" "GetNumUVChannels (plain n) = 0"
  "mMaterialIndex (plain n) = 0" "mVertices (plain n) = Ptr n" "mNormals (plain n) = Ptr 0"
  "mTextureCoords (plain n) k = Ptr 0"
  by (simp_all add: plain_def)

lemma scene_tree_sel:
  "mMeshes scene_tree = [Some (plain 10), Some (plain 11), Some (plain 12), Some (plain 13)]"
  "mMaterials scene_tree = [\<lparr>GetTexture_DIFFUSE_0 = None\<rparr>]"
  "mRootNode scene_tree = aiNode [0] [aiNode [1] [aiNode [3] []], aiNode [2] []]"
  by (simp_all add: scene_tree_def)

lemma env0_sel:
  "Importer_ReadFile env0 ''maze.obj'' = Some scene0"
  "Importer_ReadFile env0 ''lost.obj'' = Some scene_lost"
  "Importer_ReadFile env0 ''tree.obj'' = Some scene_tree"
  "Importer_ReadFile env0 ''empty.obj'' = Some scene_empty"
  "Importer_ReadFile env0 ''missing.obj'' = None"
  "lodepng_decode env0 ''lost.png'' =
     \<lparr>png_error = 78, png_image = [], png_width = 0, png_height = 0\<rparr>"
  "lodepng_error_text env0 code = ''failed to open file for reading''"
  "Importer_GetErrorString env0 file = ''Unable to open file''"
  "lodepng_decode env0 ''wall.png'' =
     \<lparr>png_error = 0, png_image = [255, 0, 0, 255], png_width = 1, png_height = 1\<rparr>"
  "glGenTextures_name env0 k = of_nat k + 1"
  by (simp_all add: env0_def)

lemma prog0_sel:
  "sp_a prog0 ''vertex'' = 0" "sp_a prog0 ''normal'' = 1" "sp_a prog0 ''texCoord0'' = 2"
  "sp_a prog0 ''texCoord1'' = - 1" "sp_u prog0 ''M'' = 0" "sp_u prog0 ''textureMap0'' = 1"
  by (simp_all add: prog0_def)

lemma prog_shared_sel:
  "sp_a prog_shared ''vertex'' = 0" "sp_a prog_shared ''normal'' = 2"
  "sp_a prog_shared ''texCoord0'' = 2" "sp_a prog_shared ''texCoord1'' = - 1"
  "sp_u prog_shared ''M'' = 0" "sp_u prog_shared ''textureMap0'' = 1"
  by (simp_all add: prog_shared_def)

lemma upt_0_2: "[0 ..< (2::nat)] = [0, 1]"
  by (simp add: numeral_2_eq_2)

lemmas run_simps = upt_0_2 loadModel.simps processMesh.simps readTexture.simps Let_def emit_def push_back_def
  to_string_digit stored_def quad_sel tri_sel scene0_sel scene_lost_sel env0_sel prog0_sel
  construct_Importer_def destroy_Importer_def mesh_at_def mesh_in_sel

lemma first_load:
  "loadModel env0 ''maze.obj'' (Some prog0) (Model0, world0) = Inr (model1, world1)"
  by (simp add: run_simps Model0_def world0_def model1_def world1_def to_string.simps [of 2])

lemma second_load:
  "loadModel env0 ''maze.obj'' (Some prog0) (model1, world1) = Inr (model2, world2)"
  by (simp add: run_simps model1_def world1_def model2_def world2_def second_load_events_def
        to_string.simps [of 4])

lemma valid_scene0: "valid_scene scene0"
  by (simp add: valid_scene_def scene0_sel quad_sel tri_sel)

lemma valid_scene_lost: "valid_scene scene_lost"
  by (simp add: valid_scene_def scene_lost_sel quad_sel tri_sel)

lemma valid_scene_tree: "valid_scene scene_tree"
  by (simp add: valid_scene_def scene_tree_sel plain_sel)

lemma load_shared:
  "loadModel env0 ''maze.obj'' (Some prog_shared) (Model0, world0) = Inr (model_shared, world1)"
  by (simp add: run_simps prog_shared_sel Model0_def world0_def model_shared_def model1_def
        world1_def to_string.simps [of 2])

subsection \<open>The lifetime of the scene\<close>

text \<open>
  Every Mesh that a load stores points into the scene of the Importer of that load, which
  is destroyed when the load returns: \<open>drawMesh\<close> on such a Mesh, in the state the load
  left, reads freed memory. So does \<open>draw\<close> after the first load of \<open>maze.obj\<close>.
\<close>

lemma mesh_at_importer: "mesh_at k sc i = Some mp \<Longrightarrow> importer mp = k"
  by (cases "mMeshes sc ! i") (auto simp: mesh_at_def)

lemma drawMesh_after_loadModel:
  assumes rf: "Importer_ReadFile env pFile = Some sc" and ne: "mMeshes sc \<noteq> []"
    and v: "valid_scene sc"
  shows "\<exists>m' w' new. loadModel env pFile (Some prog) (m, w) = Inr (m', w') \<and>
           meshes m' = meshes m @ new \<and>
           (\<forall>M \<in> set new. drawMesh (Some M) Mat (m', w') = Inl UseAfterFree)"
proof (rule loadModel_stored [OF assms, of prog m w])
  fix m' w' new pre
  assume lm: "loadModel env pFile (Some prog) (m, w) = Inr (m', w')"
    and new: "meshes m' = meshes m @ new"
    and ptrs: "map (\<lambda>M. Some (mesh M)) new =
       map (mesh_at (importers w) sc) (concat (map node_mMeshes (preorder (mRootNode sc))))"
    and sp: "shaderprogram m' = Some prog"
    and dead: "importers w \<notin> live w'"
  have "drawMesh (Some M) Mat (m', w') = Inl UseAfterFree" if M: "M \<in> set new" for M
  proof -
    from M have "Some (mesh M) \<in> set (map (\<lambda>M. Some (mesh M)) new)" by simp
    with ptrs obtain i where "mesh_at (importers w) sc i = Some (mesh M)" by auto
    then have "importer (mesh M) = importers w"
      by (rule mesh_at_importer)
    with dead sp show ?thesis by (simp add: Let_def)
  qed
  with lm new show ?thesis by blast
qed

lemma draw_after_first_load:
  "draw (Mat4 0) (model1, world1) = Inl UseAfterFree"
  by (simp add: model1_def world1_def stored_def prog0_sel Let_def)
section \<open>The claims\<close>

text \<open>
  Claim C1. For a valid model file whose scene has at least one mesh, loaded into a Model
  that holds no mesh yet, as the Model is when it is constructed, \<open>loadModel\<close> returns, and
  the number of Mesh entities of the Model is then the sum of \<open>mNumMeshes\<close> over the nodes
  of the tree. It is the number that the last line of the log gives as the number of
  meshes processed.
\<close>

theorem C1_mesh_count:
  assumes "Importer_ReadFile env pFile = Some sc" and "mMeshes sc \<noteq> []"
    and "valid_scene sc" and "meshes m = []"
  shows "\<exists>m' w' pre. loadModel env pFile (Some prog) (m, w) = Inr (m', w') \<and>
           length (meshes m') = (\<Sum>node\<leftarrow>preorder (mRootNode sc). mNumMeshes node) \<and>
           trace w' = pre @ [Cout (''Number of meshes processed: ''
             @ to_string (\<Sum>node\<leftarrow>preorder (mRootNode sc). mNumMeshes node))]"
proof (rule loadModel_stored [OF assms(1-3), of prog m w])
  fix m' w' new pre
  assume lm: "loadModel env pFile (Some prog) (m, w) = Inr (m', w')"
    and new: "meshes m' = meshes m @ new"
    and ptrs: "map (\<lambda>M. Some (mesh M)) new =
       map (mesh_at (importers w) sc) (concat (map node_mMeshes (preorder (mRootNode sc))))"
    and tr: "trace w' =
       pre @ [Cout (''Number of meshes processed: '' @ to_string (length (meshes m')))]"
  from arg_cong [OF ptrs, of length]
  have "length new = length (concat (map node_mMeshes (preorder (mRootNode sc))))"
    by simp
  with new assms(4)
  have len: "length (meshes m') = (\<Sum>node\<leftarrow>preorder (mRootNode sc). mNumMeshes node)"
    by (simp add: length_concat_sum)
  from lm len tr show ?thesis by simp
qed

theorem C1_mesh_count_witness:
  "Importer_ReadFile env0 ''maze.obj'' = Some scene0 \<and> mMeshes scene0 \<noteq> [] \<and>
   valid_scene scene0 \<and> meshes Model0 = [] \<and>
   (\<Sum>node\<leftarrow>preorder (mRootNode scene0). mNumMeshes node) = 2 \<and>
   length (meshes (fst (projr (loadModel env0 ''maze.obj'' (Some prog0) (Model0, world0)))))
     = 2 \<and>
   last (trace (snd (projr (loadModel env0 ''maze.obj'' (Some prog0) (Model0, world0)))))
     = Cout ''Number of meshes processed: 2''"
proof -
  have h1: "Importer_ReadFile env0 ''maze.obj'' = Some scene0" by (simp add: env0_sel)
  have h2: "mMeshes scene0 \<noteq> []" by (simp add: scene0_sel)
  have h4: "meshes Model0 = []" by (simp add: Model0_def)
  have s: "(\<Sum>node\<leftarrow>preorder (mRootNode scene0). mNumMeshes node) = 2"
    by (simp add: scene0_sel)
  from C1_mesh_count [OF h1 h2 valid_scene0 h4, of prog0 world0] obtain m' w' pre where
    "loadModel env0 ''maze.obj'' (Some prog0) (Model0, world0) = Inr (m', w')"
    "length (meshes m') = (\<Sum>node\<leftarrow>preorder (mRootNode scene0). mNumMeshes node)"
    "trace w' = pre @ [Cout (''Number of meshes processed: ''
       @ to_string (\<Sum>node\<leftarrow>preorder (mRootNode scene0). mNumMeshes node))]"
    by blast
  then show ?thesis using h1 h2 valid_scene0 h4 s by (simp add: to_string_digit)
qed




text \<open>
  Claim C3. In one \<open>loadModel\<close> call on a Model whose texture cache is empty, as it is
  when the Model is constructed, of two meshes that the call processes and that reference
  the same diffuse texture path, the second is stored with the handle of the first, and
  \<open>readTexture\<close> is invoked for that path exactly once. An invocation of \<open>readTexture\<close> is
  counted by the one call of the decoder it makes.
\<close>

theorem C3_shared_texture:
  assumes "Importer_ReadFile env pFile = Some sc" and "mMeshes sc \<noteq> []"
    and "valid_scene sc" and "loadedTextures m = Map.empty"
  shows "\<exists>m' w' new evs. loadModel env pFile (Some prog) (m, w) = Inr (m', w') \<and>
           meshes m' = meshes m @ new \<and> trace w' = trace w @ evs \<and>
           (\<forall>i j p. i < j \<and> j < length new \<and>
                texture_path sc (pointee (mesh (new ! i))) = Some p \<and>
                texture_path sc (pointee (mesh (new ! j))) = Some p \<longrightarrow>
              (\<exists>h. meshTextures (new ! i) = [h] \<and> meshTextures (new ! j) = [h]) \<and>
              count_list evs (decode p) = 1)"
proof (rule loadModel_summary [OF assms(1-3), of prog m w])
  fix m' w' new evs
  assume lm: "loadModel env pFile (Some prog) (m, w) = Inr (m', w')"
    and new: "meshes m' = meshes m @ new"
    and tex: "\<And>M p. M \<in> set new \<Longrightarrow> texture_path sc (pointee (mesh M)) = Some p \<Longrightarrow>
        \<exists>h. loadedTextures m' p = Some h \<and> meshTextures M = [h]"
    and tr: "trace w' = trace w @ evs"
    and cnt: "\<And>p. count_list evs (decode p) =
        (if p \<in> dom (loadedTextures m') \<and> p \<notin> dom (loadedTextures m) then 1 else 0)"
  have "(\<exists>h. meshTextures (new ! i) = [h] \<and> meshTextures (new ! j) = [h]) \<and>
        count_list evs (decode p) = 1"
    if ij: "i < j" "j < length new"
      and pi: "texture_path sc (pointee (mesh (new ! i))) = Some p"
      and pj: "texture_path sc (pointee (mesh (new ! j))) = Some p" for i j p
  proof -
    from ij have "new ! i \<in> set new" "new ! j \<in> set new" by simp_all
    with tex pi pj obtain h h' where
      h: "loadedTextures m' p = Some h" "meshTextures (new ! i) = [h]"
      and h': "loadedTextures m' p = Some h'" "meshTextures (new ! j) = [h']"
      by blast
    then have "h' = h" by simp
    moreover from h have "p \<in> dom (loadedTextures m')" by blast
    moreover from assms(4) have "p \<notin> dom (loadedTextures m)" by simp
    ultimately show ?thesis using h h' cnt [of p] by simp
  qed
  with lm new tr show ?thesis by blast
qed

theorem C3_shared_texture_witness:
  "Importer_ReadFile env0 ''maze.obj'' = Some scene0 \<and> mMeshes scene0 \<noteq> [] \<and>
   valid_scene scene0 \<and> loadedTextures Model0 = Map.empty \<and>
   loadModel env0 ''maze.obj'' (Some prog0) (Model0, world0) = Inr (model1, world1) \<and>
   texture_path scene0 (pointee (mesh (meshes model1 ! 0))) = Some ''wall.png'' \<and>
   texture_path scene0 (pointee (mesh (meshes model1 ! 1))) = Some ''wall.png'' \<and>
   meshTextures (meshes model1 ! 1) = meshTextures (meshes model1 ! 0) \<and>
   count_list (trace world1) (decode ''wall.png'') = 1"
proof -
  have h1: "Importer_ReadFile env0 ''maze.obj'' = Some scene0" by (simp add: env0_sel)
  have h2: "mMeshes scene0 \<noteq> []" by (simp add: scene0_sel)
  have h4: "loadedTextures Model0 = Map.empty" by (simp add: Model0_def)
  have p0: "texture_path scene0 (pointee (mesh (meshes model1 ! 0))) = Some ''wall.png''"
    by (simp add: model1_def stored_def texture_path_def scene0_sel quad_sel)
  have p1: "texture_path scene0 (pointee (mesh (meshes model1 ! 1))) = Some ''wall.png''"
    by (simp add: model1_def stored_def texture_path_def scene0_sel tri_sel)
  from C3_shared_texture [OF h1 h2 valid_scene0 h4, of prog0 world0]
  obtain m' w' new evs where
    lm: "loadModel env0 ''maze.obj'' (Some prog0) (Model0, world0) = Inr (m', w')" and
    new: "meshes m' = meshes Model0 @ new" and tr: "trace w' = trace world0 @ evs" and
    all: "\<forall>i j p. i < j \<and> j < length new \<and>
                texture_path scene0 (pointee (mesh (new ! i))) = Some p \<and>
                texture_path scene0 (pointee (mesh (new ! j))) = Some p \<longrightarrow>
              (\<exists>h. meshTextures (new ! i) = [h] \<and> meshTextures (new ! j) = [h]) \<and>
              count_list evs (decode p) = 1"
    by blast
  from lm first_load have eq: "m' = model1" "w' = world1" by simp_all
  from new eq have n: "new = meshes model1" by (simp add: Model0_def)
  from tr eq have e: "evs = trace world1" by (simp add: world0_def)
  have "(0::nat) < 1 \<and> 1 < length new \<and>
        texture_path scene0 (pointee (mesh (new ! 0))) = Some ''wall.png'' \<and>
        texture_path scene0 (pointee (mesh (new ! 1))) = Some ''wall.png''"
    using p0 p1 n by (simp add: model1_def)
  with all have "(\<exists>h. meshTextures (new ! 0) = [h] \<and> meshTextures (new ! 1) = [h]) \<and>
       count_list evs (decode ''wall.png'') = 1"
    by blast
  then have "meshTextures (meshes model1 ! 1) = meshTextures (meshes model1 ! 0)"
    "count_list (trace world1) (decode ''wall.png'') = 1"
    using n e by auto
  then show ?thesis
    using h1 h2 valid_scene0 h4 first_load p0 p1 by simp
qed

text \<open>
  Claim C4. If the importer returns the null pointer, or a scene with no mesh, \<open>loadModel\<close>
  on a Model that holds no mesh logs the failure as its last action and returns with the
  Model still holding no mesh; \<open>draw\<close> on that Model then issues no call at all and
  leaves the state as it is.
\<close>

theorem C4_failed_load:
  assumes "Importer_ReadFile env pFile = None \<or>
           (\<exists>sc. Importer_ReadFile env pFile = Some sc \<and> mMeshes sc = [])"
    and "meshes m = []"
  shows "\<exists>m' w'. loadModel env pFile sp (m, w) = Inr (m', w') \<and>
           meshes m' = [] \<and>
           trace w' = trace w @
             (case Importer_ReadFile env pFile of
                None \<Rightarrow> [ReadFile pFile,
                          Cerr (''Error loading model: '' @ Importer_GetErrorString env pFile)]
              | Some sc \<Rightarrow> [ReadFile pFile, Cout (''Model loaded successfully: '' @ pFile),
                            Cerr ''No meshes found in the model.'']) \<and>
           draw M (m', w') = Inr (m', w')"
  using assms(1)
proof
  assume rf: "Importer_ReadFile env pFile = None"
  let ?m' = "m\<lparr>shaderprogram := sp, scene := None\<rparr>"
  let ?w' = "destroy_Importer (importers w)
               (emit [ReadFile pFile,
                      Cerr (''Error loading model: '' @ Importer_GetErrorString env pFile)]
                  (construct_Importer w))"
  have "loadModel env pFile sp (m, w) = Inr (?m', ?w')"
    using rf by (simp add: loadModel_preorder)
  moreover have "meshes ?m' = []" using assms(2) by simp
  moreover have "trace ?w' = trace w @
             (case Importer_ReadFile env pFile of
                None \<Rightarrow> [ReadFile pFile,
                          Cerr (''Error loading model: '' @ Importer_GetErrorString env pFile)]
              | Some sc \<Rightarrow> [ReadFile pFile, Cout (''Model loaded successfully: '' @ pFile),
                            Cerr ''No meshes found in the model.''])"
    using rf by simp
  moreover have "draw M (?m', ?w') = Inr (?m', ?w')" using assms(2) by simp
  ultimately show ?thesis by blast
next
  assume "\<exists>sc. Importer_ReadFile env pFile = Some sc \<and> mMeshes sc = []"
  then obtain sc where rf: "Importer_ReadFile env pFile = Some sc" and e: "mMeshes sc = []"
    by blast
  let ?m' = "m\<lparr>shaderprogram := sp, scene := Some sc\<rparr>"
  let ?w' = "destroy_Importer (importers w)
               (emit [ReadFile pFile, Cout (''Model loaded successfully: '' @ pFile),
                      Cerr ''No meshes found in the model.''] (construct_Importer w))"
  have "loadModel env pFile sp (m, w) = Inr (?m', ?w')"
    using rf e by (simp add: loadModel_preorder)
  moreover have "meshes ?m' = []" using assms(2) by simp
  moreover have "trace ?w' = trace w @
             (case Importer_ReadFile env pFile of
                None \<Rightarrow> [ReadFile pFile,
                          Cerr (''Error loading model: '' @ Importer_GetErrorString env pFile)]
              | Some sc \<Rightarrow> [ReadFile pFile, Cout (''Model loaded successfully: '' @ pFile),
                            Cerr ''No meshes found in the model.''])"
    using rf by simp
  moreover have "draw M (?m', ?w') = Inr (?m', ?w')" using assms(2) by simp
  ultimately show ?thesis by blast
qed

theorem C4_failed_load_witness:
  "Importer_ReadFile env0 ''missing.obj'' = None \<and>
   Importer_ReadFile env0 ''empty.obj'' = Some scene_empty \<and> mMeshes scene_empty = [] \<and>
   meshes Model0 = [] \<and>
   meshes (fst (projr (loadModel env0 ''missing.obj'' (Some prog0) (Model0, world0)))) = [] \<and>
   trace (snd (projr (loadModel env0 ''missing.obj'' (Some prog0) (Model0, world0))))
     = [ReadFile ''missing.obj'', Cerr ''Error loading model: Unable to open file''] \<and>
   draw (Mat4 0) (projr (loadModel env0 ''missing.obj'' (Some prog0) (Model0, world0)))
     = Inr (projr (loadModel env0 ''missing.obj'' (Some prog0) (Model0, world0))) \<and>
   meshes (fst (projr (loadModel env0 ''empty.obj'' (Some prog0) (Model0, world0)))) = [] \<and>
   trace (snd (projr (loadModel env0 ''empty.obj'' (Some prog0) (Model0, world0))))
     = [ReadFile ''empty.obj'', Cout ''Model loaded successfully: empty.obj'',
        Cerr ''No meshes found in the model.''] \<and>
   draw (Mat4 0) (projr (loadModel env0 ''empty.obj'' (Some prog0) (Model0, world0)))
     = Inr (projr (loadModel env0 ''empty.obj'' (Some prog0) (Model0, world0)))"
proof -
  have h: "Importer_ReadFile env0 ''missing.obj'' = None" by (simp add: env0_sel)
  have h': "\<exists>sc. Importer_ReadFile env0 ''empty.obj'' = Some sc \<and> mMeshes sc = []"
    by (simp add: env0_sel scene_empty_def)
  have e: "meshes Model0 = []" by (simp add: Model0_def)
  from C4_failed_load [OF disjI1 [OF h] e, of "Some prog0" world0 "Mat4 0"]
  obtain m1 w1 where 1:
    "loadModel env0 ''missing.obj'' (Some prog0) (Model0, world0) = Inr (m1, w1)"
    "meshes m1 = []"
    "trace w1 = trace world0 @
       (case Importer_ReadFile env0 ''missing.obj'' of
          None \<Rightarrow> [ReadFile ''missing.obj'',
                    Cerr (''Error loading model: ''
                      @ Importer_GetErrorString env0 ''missing.obj'')]
        | Some sc \<Rightarrow> [ReadFile ''missing.obj'',
                      Cout (''Model loaded successfully: '' @ ''missing.obj''),
                      Cerr ''No meshes found in the model.''])"
    "draw (Mat4 0) (m1, w1) = Inr (m1, w1)"
    by blast
  from C4_failed_load [OF disjI2 [OF h'] e, of "Some prog0" world0 "Mat4 0"]
  obtain m2 w2 where 2:
    "loadModel env0 ''empty.obj'' (Some prog0) (Model0, world0) = Inr (m2, w2)"
    "meshes m2 = []"
    "trace w2 = trace world0 @
       (case Importer_ReadFile env0 ''empty.obj'' of
          None \<Rightarrow> [ReadFile ''empty.obj'',
                    Cerr (''Error loading model: ''
                      @ Importer_GetErrorString env0 ''empty.obj'')]
        | Some sc \<Rightarrow> [ReadFile ''empty.obj'',
                      Cout (''Model loaded successfully: '' @ ''empty.obj''),
                      Cerr ''No meshes found in the model.''])"
    "draw (Mat4 0) (m2, w2) = Inr (m2, w2)"
    by blast
  from 1 2 show ?thesis
    using h e by (simp add: env0_sel scene_empty_def world0_def del: draw.simps)
qed

text \<open>
  Claim C5. For a mesh that \<open>processMesh\<close> processes, the stored index sequence is the
  concatenation of the index lists of its faces, in the order of the faces and with each
  face's indices in their own order; its length is the sum of the faces' index counts.
\<close>

theorem C5_flattened_indices:
  assumes "shaderprogram m = Some prog" and "mMaterialIndex (pointee mp) < length (mMaterials sc)"
  shows "\<exists>m' w' M. processMesh env (Some mp) sc (m, w) = Inr (m', w') \<and>
           meshes m' = meshes m @ [M] \<and> mesh M = mp \<and>
           indices M = concat (map mIndices (mFaces (pointee mp))) \<and>
           length (indices M) = (\<Sum>face\<leftarrow>mFaces (pointee mp). length (mIndices face))"
proof -
  from processMesh_Some_result [OF assms, of env w] obtain m' w' names texs where
    "processMesh env (Some mp) sc (m, w) = Inr (m', w')"
    "meshes m' = meshes m @ [stored mp names texs]"
    by blast
  moreover have "indices (stored mp names texs) = concat (map mIndices (mFaces (pointee mp)))"
    by (simp add: flatten_faces_append)
  moreover have "length (concat (map mIndices (mFaces (pointee mp))))
                   = (\<Sum>face\<leftarrow>mFaces (pointee mp). length (mIndices face))"
    by (rule length_concat_sum)
  ultimately show ?thesis by (intro exI [of _ m'] exI [of _ w'] exI [of _ "stored mp names texs"]) simp
qed

theorem C5_flattened_indices_witness:
  "shaderprogram (Model0\<lparr>shaderprogram := Some prog0\<rparr>) = Some prog0 \<and>
   mMaterialIndex (pointee (mesh_in 0 quad)) < length (mMaterials scene0) \<and>
   indices (last (meshes (fst (projr
     (processMesh env0 (Some (mesh_in 0 quad)) scene0 (Model0\<lparr>shaderprogram := Some prog0\<rparr>, world0))))))
     = [0, 1, 2, 2, 3, 0]"
proof -
  have h1: "shaderprogram (Model0\<lparr>shaderprogram := Some prog0\<rparr>) = Some prog0" by simp
  have h2: "mMaterialIndex (pointee (mesh_in 0 quad)) < length (mMaterials scene0)"
    by (simp add: quad_def scene0_def)
  from C5_flattened_indices [OF h1 h2, of env0 world0] obtain m' w' M where
    "processMesh env0 (Some (mesh_in 0 quad)) scene0 (Model0\<lparr>shaderprogram := Some prog0\<rparr>, world0)
       = Inr (m', w')"
    "meshes m' = meshes (Model0\<lparr>shaderprogram := Some prog0\<rparr>) @ [M]"
    "indices M = concat (map mIndices (mFaces (pointee (mesh_in 0 quad))))"
    by blast
  then have "indices (last (meshes (fst (projr
     (processMesh env0 (Some (mesh_in 0 quad)) scene0 (Model0\<lparr>shaderprogram := Some prog0\<rparr>, world0))))))
     = concat (map mIndices (mFaces quad))"
    by simp
  also have "\<dots> = [0, 1, 2, 2, 3, 0]" by (simp add: quad_def)
  finally show ?thesis using h1 h2 by simp
qed



text \<open>
  Claim C7. For a mesh with N UV channels that \<open>processMesh\<close> processes, exactly N
  attribute locations are looked up from the shader program, under the names
  \<open>texCoord0\<close> to \<open>texCoord(N-1)\<close> in the order of the channels, and the N answers are
  stored in that order: the call starts with these N lookups and makes no other lookup of
  an attribute.
\<close>

theorem C7_texCoord_lookups:
  assumes "shaderprogram m = Some prog" and "mMaterialIndex (pointee mp) < length (mMaterials sc)"
  shows "\<exists>m' w' M rest. processMesh env (Some mp) sc (m, w) = Inr (m', w') \<and>
           meshes m' = meshes m @ [M] \<and>
           texCoordsAttributes M =
             map (\<lambda>i. sp_a prog (''texCoord'' @ to_string i)) [0 ..< GetNumUVChannels (pointee mp)] \<and>
           length (texCoordsAttributes M) = GetNumUVChannels (pointee mp) \<and>
           trace w' = trace w @
             map (\<lambda>i. ShaderProgram_a (''texCoord'' @ to_string i)) [0 ..< GetNumUVChannels (pointee mp)]
             @ rest \<and>
           (\<forall>name. ShaderProgram_a name \<notin> set rest)"
proof -
  from processMesh_Some_result [OF assms, of env w] obtain m' w' texs rest where
    r: "processMesh env (Some mp) sc (m, w) = Inr (m', w')"
    "meshes m' = meshes m @ [stored mp (map (\<lambda>i. sp_a prog (texCoord_name i))
                                       [0 ..< GetNumUVChannels (pointee mp)]) texs]"
    "trace w' = trace w @ map (\<lambda>i. ShaderProgram_a (texCoord_name i))
                              [0 ..< GetNumUVChannels (pointee mp)] @ rest"
    "\<forall>n. ShaderProgram_a n \<notin> set rest"
    by blast
  show ?thesis
    by (intro exI [of _ m'] exI [of _ w'] exI [of _ rest]
          exI [of _ "stored mp (map (\<lambda>i. sp_a prog (texCoord_name i))
                                       [0 ..< GetNumUVChannels (pointee mp)]) texs"])
       (use r in \<open>simp add: texCoord_name_def\<close>)
qed

theorem C7_texCoord_lookups_witness:
  "shaderprogram (Model0\<lparr>shaderprogram := Some prog0\<rparr>) = Some prog0 \<and>
   mMaterialIndex (pointee (mesh_in 0 tri)) < length (mMaterials scene0) \<and>
   GetNumUVChannels tri = 2 \<and>
   texCoordsAttributes (last (meshes (fst (projr
     (processMesh env0 (Some (mesh_in 0 tri)) scene0 (Model0\<lparr>shaderprogram := Some prog0\<rparr>, world0))))))
     = [2, - 1] \<and>
   take 2 (trace (snd (projr
     (processMesh env0 (Some (mesh_in 0 tri)) scene0 (Model0\<lparr>shaderprogram := Some prog0\<rparr>, world0)))))
     = [ShaderProgram_a ''texCoord0'', ShaderProgram_a ''texCoord1'']"
proof -
  have h1: "shaderprogram (Model0\<lparr>shaderprogram := Some prog0\<rparr>) = Some prog0" by simp
  have h2: "mMaterialIndex (pointee (mesh_in 0 tri)) < length (mMaterials scene0)"
    by (simp add: tri_sel scene0_sel)
  from C7_texCoord_lookups [OF h1 h2, of env0 world0] obtain m' w' M rest where
    "processMesh env0 (Some (mesh_in 0 tri)) scene0 (Model0\<lparr>shaderprogram := Some prog0\<rparr>, world0)
       = Inr (m', w')"
    "meshes m' = meshes (Model0\<lparr>shaderprogram := Some prog0\<rparr>) @ [M]"
    "texCoordsAttributes M =
       map (\<lambda>i. sp_a prog0 (''texCoord'' @ to_string i)) [0 ..< GetNumUVChannels (pointee (mesh_in 0 tri))]"
    "trace w' = trace world0 @
       map (\<lambda>i. ShaderProgram_a (''texCoord'' @ to_string i)) [0 ..< GetNumUVChannels (pointee (mesh_in 0 tri))]
       @ rest"
    by blast
  then show ?thesis
    using h1 h2
    by (simp add: tri_sel upt_0_2 to_string_digit prog0_sel world0_def)
qed

text \<open>
  Claim C8. The walk that \<open>loadModel\<close> makes over the scene tree is the pre-order walk from
  the root. For a valid scene with at least one mesh the load returns, and the Mesh
  entities it has appended to the Model are, one for each mesh reference and in this
  order, the meshes referenced by the nodes as \<open>preorder\<close> lists them: the meshes of a
  node, in the order of its references, before those of any node below it, and the
  subtrees of its children one after the other in the order the scene gives them. Every
  node contributes its meshes once.
\<close>

theorem C8_preorder_traversal:
  assumes "Importer_ReadFile env pFile = Some sc" and "mMeshes sc \<noteq> []"
    and "valid_scene sc"
  shows "\<exists>m' w' new. loadModel env pFile (Some prog) (m, w) = Inr (m', w') \<and>
           meshes m' = meshes m @ new \<and>
           map (\<lambda>M. Some (pointee (mesh M))) new =
             map (\<lambda>i. mMeshes sc ! i)
               (concat (map node_mMeshes (preorder (mRootNode sc))))"
proof (rule loadModel_stored [OF assms, of prog m w])
  fix m' w' new
  assume lm: "loadModel env pFile (Some prog) (m, w) = Inr (m', w')"
    and new: "meshes m' = meshes m @ new"
    and ptrs: "map (\<lambda>M. Some (mesh M)) new =
       map (mesh_at (importers w) sc) (concat (map node_mMeshes (preorder (mRootNode sc))))"
  from arg_cong [OF ptrs, of "map (map_option pointee)"]
  have "map (\<lambda>M. Some (pointee (mesh M))) new =
      map (\<lambda>i. mMeshes sc ! i) (concat (map node_mMeshes (preorder (mRootNode sc))))"
    by (simp add: mesh_at_def option.map_comp comp_def option.map_ident)
  with lm new show ?thesis by blast
qed

theorem C8_preorder_traversal_witness:
  "Importer_ReadFile env0 ''tree.obj'' = Some scene_tree \<and> mMeshes scene_tree \<noteq> [] \<and>
   valid_scene scene_tree \<and>
   mRootNode scene_tree = aiNode [0] [aiNode [1] [aiNode [3] []], aiNode [2] []] \<and>
   map (\<lambda>M. mVertices (pointee (mesh M)))
     (meshes (fst (projr (loadModel env0 ''tree.obj'' (Some prog0) (Model0, world0)))))
     = map (\<lambda>i. mVertices (the (mMeshes scene_tree ! i))) [0, 1, 3, 2] \<and>
   map (\<lambda>M. mVertices (pointee (mesh M)))
     (meshes (fst (projr (loadModel env0 ''tree.obj'' (Some prog0) (Model0, world0)))))
     = [Ptr 10, Ptr 11, Ptr 13, Ptr 12]"
proof -
  have h1: "Importer_ReadFile env0 ''tree.obj'' = Some scene_tree" by (simp add: env0_sel)
  have h2: "mMeshes scene_tree \<noteq> []" by (simp add: scene_tree_sel)
  from C8_preorder_traversal [OF h1 h2 valid_scene_tree, of prog0 Model0 world0]
  obtain m' w' new where
    lm: "loadModel env0 ''tree.obj'' (Some prog0) (Model0, world0) = Inr (m', w')" and
    new: "meshes m' = meshes Model0 @ new" and
    ord: "map (\<lambda>M. Some (pointee (mesh M))) new =
            map (\<lambda>i. mMeshes scene_tree ! i)
              (concat (map node_mMeshes (preorder (mRootNode scene_tree))))"
    by blast
  from ord have "map (\<lambda>M. Some (pointee (mesh M))) new =
      [Some (plain 10), Some (plain 11), Some (plain 13), Some (plain 12)]"
    by (simp add: scene_tree_sel)
  from arg_cong [OF this, of "map (\<lambda>x. mVertices (the x))"]
  have "map (\<lambda>M. mVertices (pointee (mesh M))) new = [Ptr 10, Ptr 11, Ptr 13, Ptr 12]"
    by (simp add: comp_def plain_sel)
  with lm new show ?thesis
    using h1 h2 valid_scene_tree by (simp add: Model0_def scene_tree_sel plain_sel)
qed

text \<open>
  Claim C9. When \<open>drawMesh\<close> gets the null pointer, the two calls that set the wrap
  mode to clamp-to-edge have been made before the test returns, and nothing else but the
  log line follows: the texture bound to \<open>GL_TEXTURE_2D\<close> is left with clamp-to-edge in S
  and T, and the call does not set repeat.
\<close>

theorem C9_null_mesh_leaves_clamp:
  "drawMesh None M (m, w) =
     Inr (m, emit [glTexParameteri GL_TEXTURE_WRAP_S GL_CLAMP_TO_EDGE,
                   glTexParameteri GL_TEXTURE_WRAP_T GL_CLAMP_TO_EDGE,
                   Cerr ''Null mesh encountered during draw.''] w) \<and>
   tex_parameter
     (gl_run [glTexParameteri GL_TEXTURE_WRAP_S GL_CLAMP_TO_EDGE,
              glTexParameteri GL_TEXTURE_WRAP_T GL_CLAMP_TO_EDGE,
              Cerr ''Null mesh encountered during draw.''] g)
     (bound_texture g) GL_TEXTURE_WRAP_S = GL_CLAMP_TO_EDGE \<and>
   tex_parameter
     (gl_run [glTexParameteri GL_TEXTURE_WRAP_S GL_CLAMP_TO_EDGE,
              glTexParameteri GL_TEXTURE_WRAP_T GL_CLAMP_TO_EDGE,
              Cerr ''Null mesh encountered during draw.''] g)
     (bound_texture g) GL_TEXTURE_WRAP_T = GL_CLAMP_TO_EDGE \<and>
   (\<forall>pname. glTexParameteri pname GL_REPEAT \<notin>
      set [glTexParameteri GL_TEXTURE_WRAP_S GL_CLAMP_TO_EDGE,
           glTexParameteri GL_TEXTURE_WRAP_T GL_CLAMP_TO_EDGE,
           Cerr ''Null mesh encountered during draw.''])"
  by (simp add: emit_def gl_run_def bound_texture_def)

text \<open>
  Claim C10. \<open>loadModel\<close> never clears what the Model holds. Whatever the importer
  returns (the null pointer, or a scene that is valid), the call returns with the meshes
  it processed appended after the meshes the Model held, with every entry of the texture
  cache still there under its path, with the cached handle stored in every new mesh that
  references a cached path, and without a call of the decoder for a cached path.
\<close>

theorem C10_load_accumulates:
  assumes "\<forall>sc. Importer_ReadFile env pFile = Some sc \<longrightarrow> valid_scene sc"
  shows "\<exists>m' w' new evs. loadModel env pFile (Some prog) (m, w) = Inr (m', w') \<and>
           meshes m' = meshes m @ new \<and>
           loadedTextures m \<subseteq>\<^sub>m loadedTextures m' \<and>
           trace w' = trace w @ evs \<and>
           (\<forall>M \<in> set new. \<forall>sc p h. Importer_ReadFile env pFile = Some sc \<and>
              texture_path sc (pointee (mesh M)) = Some p \<and> loadedTextures m p = Some h
              \<longrightarrow> meshTextures M = [h]) \<and>
           (\<forall>p \<in> dom (loadedTextures m). count_list evs (decode p) = 0)"
proof (cases "Importer_ReadFile env pFile")
  case None
  then have "loadModel env pFile (Some prog) (m, w) =
      Inr (m\<lparr>shaderprogram := Some prog, scene := None\<rparr>,
           destroy_Importer (importers w)
             (emit [ReadFile pFile,
                    Cerr (''Error loading model: '' @ Importer_GetErrorString env pFile)]
                (construct_Importer w)))"
    by (simp add: loadModel_preorder)
  then show ?thesis
    by (intro exI [of _ "m\<lparr>shaderprogram := Some prog, scene := None\<rparr>"]
          exI [of _ "destroy_Importer (importers w)
             (emit [ReadFile pFile,
                    Cerr (''Error loading model: '' @ Importer_GetErrorString env pFile)]
                (construct_Importer w))"]
          exI [of _ "[]"]
          exI [of _ "[ReadFile pFile,
                      Cerr (''Error loading model: '' @ Importer_GetErrorString env pFile)]"])
       simp
next
  case (Some sc)
  with assms have v: "valid_scene sc" by blast
  show ?thesis
  proof (cases "mMeshes sc = []")
    case True
    with Some have "loadModel env pFile (Some prog) (m, w) =
      Inr (m\<lparr>shaderprogram := Some prog, scene := Some sc\<rparr>,
           destroy_Importer (importers w)
             (emit [ReadFile pFile, Cout (''Model loaded successfully: '' @ pFile),
                    Cerr ''No meshes found in the model.''] (construct_Importer w)))"
      by (simp add: loadModel_preorder)
    then show ?thesis
      by (intro exI [of _ "m\<lparr>shaderprogram := Some prog, scene := Some sc\<rparr>"]
          exI [of _ "destroy_Importer (importers w)
             (emit [ReadFile pFile, Cout (''Model loaded successfully: '' @ pFile),
                    Cerr ''No meshes found in the model.''] (construct_Importer w))"]
          exI [of _ "[]"]
          exI [of _ "[ReadFile pFile, Cout (''Model loaded successfully: '' @ pFile),
                      Cerr ''No meshes found in the model.'']"])
         simp
  next
    case False
    show ?thesis
    proof (rule loadModel_summary [OF Some False v, of prog m w])
      fix m' w' new evs
      assume lm: "loadModel env pFile (Some prog) (m, w) = Inr (m', w')"
        and new: "meshes m' = meshes m @ new"
        and len: "length new = (\<Sum>node\<leftarrow>preorder (mRootNode sc). mNumMeshes node)"
        and le: "loadedTextures m \<subseteq>\<^sub>m loadedTextures m'"
        and tex: "\<And>M p. M \<in> set new \<Longrightarrow> texture_path sc (pointee (mesh M)) = Some p \<Longrightarrow>
            \<exists>h. loadedTextures m' p = Some h \<and> meshTextures M = [h]"
        and failed: "\<And>p. p \<in> dom (loadedTextures m') \<Longrightarrow> p \<notin> dom (loadedTextures m) \<Longrightarrow>
            png_error (lodepng_decode env p) \<noteq> 0 \<Longrightarrow> loadedTextures m' p = Some 0"
        and tr: "trace w' = trace w @ evs"
        and cnt: "\<And>p. count_list evs (decode p) =
            (if p \<in> dom (loadedTextures m') \<and> p \<notin> dom (loadedTextures m) then 1 else 0)"
      have reuse: "meshTextures M = [h]"
        if M: "M \<in> set new" and rf: "Importer_ReadFile env pFile = Some sc'"
          and tp: "texture_path sc' (pointee (mesh M)) = Some p" and c: "loadedTextures m p = Some h"
        for M sc' p h
      proof -
        from rf Some have "sc' = sc" by simp
        with tex [OF M] tp obtain h' where
          h': "loadedTextures m' p = Some h'" "meshTextures M = [h']"
          by blast
        from le c have "loadedTextures m' p = Some h" by (rule map_le_Some)
        with h' show ?thesis by simp
      qed
      have none: "count_list evs (decode p) = 0" if "p \<in> dom (loadedTextures m)" for p
        using cnt [of p] that by simp
      show ?thesis
        by (intro exI [of _ m'] exI [of _ w'] exI [of _ new] exI [of _ evs] conjI
              lm new le tr)
           (use reuse none in blast)+
    qed
  qed
qed

theorem C10_load_accumulates_witness:
  "Importer_ReadFile env0 ''maze.obj'' = Some scene0 \<and> valid_scene scene0 \<and>
   loadModel env0 ''maze.obj'' (Some prog0) (model1, world1) = Inr (model2, world2) \<and>
   length (meshes model1) = 2 \<and> take 2 (meshes model2) = meshes model1 \<and>
   length (meshes model2) = 4 \<and>
   loadedTextures model1 ''wall.png'' = Some 1 \<and>
   loadedTextures model2 ''wall.png'' = Some 1 \<and>
   count_list (drop (length (trace world1)) (trace world2)) (decode ''wall.png'') = 0"
proof -
  have h: "\<forall>sc. Importer_ReadFile env0 ''maze.obj'' = Some sc \<longrightarrow> valid_scene sc"
    by (simp add: env0_sel valid_scene0)
  from C10_load_accumulates [OF h, of prog0 model1 world1]
  obtain m' w' new evs where
    lm: "loadModel env0 ''maze.obj'' (Some prog0) (model1, world1) = Inr (m', w')" and
    new: "meshes m' = meshes model1 @ new" and
    le: "loadedTextures model1 \<subseteq>\<^sub>m loadedTextures m'" and
    tr: "trace w' = trace world1 @ evs" and
    cnt: "\<forall>p \<in> dom (loadedTextures model1). count_list evs (decode p) = 0"
    by blast
  from lm second_load have eq: "m' = model2" "w' = world2" by simp_all
  have c1: "loadedTextures model1 ''wall.png'' = Some 1" by (simp add: model1_def)
  with le eq have c2: "loadedTextures model2 ''wall.png'' = Some 1"
    by (simp add: map_le_Some)
  from c1 cnt have "count_list evs (decode ''wall.png'') = 0" by blast
  with tr eq have c3:
    "count_list (drop (length (trace world1)) (trace world2)) (decode ''wall.png'') = 0"
    by simp
  from new eq have c4: "take 2 (meshes model2) = meshes model1"
    by (simp add: model1_def)
  show ?thesis
    using valid_scene0 second_load c1 c2 c3 c4
    by (simp add: env0_sel) (simp add: model1_def model2_def)
qed

end
